theory Spec2Isabelle
  imports Main "HOL-Library.Sublist"
begin

section \<open>Values of the script runtime\<close>

text \<open>
  The backend \<^verbatim>\<open>src/gas-backend/Code.gs\<close> is JavaScript. Its values are modelled by
  one datatype. Numbers are integers here (the only numbers the script computes with
  are millisecond timestamps), and an object is the list of its properties, each name
  once, in insertion order.
\<close>

datatype json =
    JUndefined
  | JNull
  | JBool bool
  | JNum int
  | JStr string
  | JArr "json list"
  | JObj "(string \<times> json) list"

text \<open>Truthiness, as \<^verbatim>\<open>if (x)\<close> and \<^verbatim>\<open>x || y\<close> test it.\<close>

fun truthy :: "json \<Rightarrow> bool" where
  "truthy JUndefined = False"
| "truthy JNull = False"
| "truthy (JBool b) = b"
| "truthy (JNum n) = (n \<noteq> 0)"
| "truthy (JStr s) = (s \<noteq> [])"
| "truthy (JArr xs) = True"
| "truthy (JObj kvs) = True"

definition js_or :: "json \<Rightarrow> json \<Rightarrow> json" where
  "js_or a b = (if truthy a then a else b)"

text \<open>
  Strict equality \<^verbatim>\<open>===\<close>: primitives are compared by value; an object or array
  is only equal to itself as a reference, and no two values that meet in this script
  are the same reference.
\<close>

fun primitive :: "json \<Rightarrow> bool" where
  "primitive (JArr xs) = False"
| "primitive (JObj kvs) = False"
| "primitive v = True"

definition strict_eq :: "json \<Rightarrow> json \<Rightarrow> bool" where
  "strict_eq a b = (primitive a \<and> a = b)"

text \<open>
  Reading one of the request's properties (\<^verbatim>\<open>data.action\<close>, \<^verbatim>\<open>data.username\<close>,
  \<^verbatim>\<open>data.password\<close>, \<^verbatim>\<open>data.sessionToken\<close>): on \<^verbatim>\<open>null\<close> the read throws a
  TypeError (\<open>Inl\<close> carries the text of \<^verbatim>\<open>error.toString()\<close>); on an object it is the
  property's value or \<^verbatim>\<open>undefined\<close>; strings, numbers, booleans and arrays have none
  of these four properties.
\<close>

definition getProp :: "(string \<Rightarrow> string) \<Rightarrow> json \<Rightarrow> string \<Rightarrow> string + json" where
  "getProp typeError v k =
     (case v of
        JObj kvs \<Rightarrow> Inr (case map_of kvs k of None \<Rightarrow> JUndefined | Some x \<Rightarrow> x)
      | JNull \<Rightarrow> Inl (typeError k)
      | JUndefined \<Rightarrow> Inl (typeError k)
      | _ \<Rightarrow> Inr JUndefined)"

text \<open>The property of a response object, for stating what a response holds.\<close>

definition field :: "json \<Rightarrow> string \<Rightarrow> json" where
  "field v k = (case v of JObj kvs \<Rightarrow> (case map_of kvs k of None \<Rightarrow> JUndefined | Some x \<Rightarrow> x)
                | _ \<Rightarrow> JUndefined)"

text \<open>A number appended to a string (\<^verbatim>\<open>'_' + new Date().getTime()\<close>): its decimal digits.\<close>

definition digit :: "nat \<Rightarrow> char" where
  "digit d = ''0123456789'' ! d"

fun decimal_nat :: "nat \<Rightarrow> string" where
  "decimal_nat n = (if n < 10 then [digit n] else decimal_nat (n div 10) @ [digit (n mod 10)])"

declare decimal_nat.simps [simp del]

definition decimal :: "int \<Rightarrow> string" where
  "decimal i = (if i < 0 then CHR ''-'' # decimal_nat (nat (- i)) else decimal_nat (nat i))"

section \<open>The platform\<close>

text \<open>
  The library functions of the runtime that the script calls and that are no code of
  the repository are parameters of the model:
  \<^item> \<open>JSON_stringify\<close> is \<^verbatim>\<open>JSON.stringify\<close>;
  \<^item> \<open>JSON_parse\<close> is \<^verbatim>\<open>JSON.parse\<close>, \<open>Inl\<close> when it throws (with the text of
    \<^verbatim>\<open>error.toString()\<close>);
  \<^item> \<open>toISOString\<close> is \<^verbatim>\<open>Date.prototype.toISOString\<close> of the valid date with the
    given time value, in milliseconds since the epoch;
  \<^item> \<open>Date_parse\<close> is the time value of \<^verbatim>\<open>new Date(text)\<close>, \<open>None\<close> for an invalid
    date (its time value is NaN);
  \<^item> \<open>typeErrorText\<close> is the text of the TypeError thrown by a property read on
    \<^verbatim>\<open>null\<close>;
  \<^item> \<open>rangeErrorText\<close> is the text of the RangeError thrown by \<^verbatim>\<open>toISOString\<close> on
    an invalid date.
\<close>

record platform =
  JSON_stringify :: "json \<Rightarrow> string"
  JSON_parse :: "string \<Rightarrow> string + json"
  toISOString :: "int \<Rightarrow> string"
  Date_parse :: "string \<Rightarrow> int option"
  typeErrorText :: "string \<Rightarrow> string"
  rangeErrorText :: string

text \<open>
  A \<^verbatim>\<open>Date\<close> object holds a time value or is invalid (\<open>None\<close>). \<^verbatim>\<open>new Date(ms)\<close> is
  invalid when \<open>ms\<close> is more than 8640000000000000 away from the epoch, and
  \<^verbatim>\<open>toISOString()\<close> throws on an invalid date.
\<close>

definition valid_time :: "int \<Rightarrow> bool" where
  "valid_time t = (abs t \<le> 8640000000000000)"

definition Date_of_ms :: "int \<Rightarrow> int option" where
  "Date_of_ms t = (if valid_time t then Some t else None)"

definition Date_toISOString :: "platform \<Rightarrow> int option \<Rightarrow> string + string" where
  "Date_toISOString P d =
     (case d of None \<Rightarrow> Inl (rangeErrorText P) | Some t \<Rightarrow> Inr (toISOString P t))"

text \<open>
  What one request reads from the outside world: the results of its calls of
  \<^verbatim>\<open>Utilities.getUuid()\<close> and its readings of the clock \<^verbatim>\<open>new Date()\<close>, one field
  for each place of the source that reads. A reading of the clock is the time value
  of a valid date, in milliseconds since the epoch.
\<close>

record env =
  uuid_admin :: string \<comment> \<open>\<^verbatim>\<open>createUsersSheet\<close>, first default user\<close>
  uuid_chapter1 :: string \<comment> \<open>\<^verbatim>\<open>createUsersSheet\<close>, second default user\<close>
  uuid_editor :: string \<comment> \<open>\<^verbatim>\<open>createUsersSheet\<close>, third default user\<close>
  uuid_token :: string \<comment> \<open>\<^verbatim>\<open>generateSessionToken\<close>\<close>
  now_token :: int \<comment> \<open>\<^verbatim>\<open>generateSessionToken\<close>\<close>
  uuid_id :: string \<comment> \<open>\<^verbatim>\<open>handleLogin\<close>, the fallback user id\<close>
  now_store :: int \<comment> \<open>\<^verbatim>\<open>storeSession\<close>\<close>
  now_sweep :: int \<comment> \<open>\<^verbatim>\<open>cleanupExpiredSessions\<close>\<close>
  now_check :: int \<comment> \<open>\<^verbatim>\<open>isSessionExpired\<close>\<close>

section \<open>The spreadsheet\<close>

text \<open>
  A sheet is the list of its rows down to the last row with content, a row the list
  of its cells. Cells hold text, as every row that the script writes does (the rows of
  \<^verbatim>\<open>createUsersSheet\<close>, \<^verbatim>\<open>addUser\<close> and \<^verbatim>\<open>storeSession\<close>); numbers and dates typed
  into a sheet by hand are not modelled. \<^verbatim>\<open>getSheetByName\<close> gives \<^verbatim>\<open>null\<close> for a
  sheet that does not exist: \<open>None\<close>.

  The spreadsheet is the one that \<^verbatim>\<open>SPREADSHEET_ID\<close> names, and the calls of
  \<^verbatim>\<open>SpreadsheetApp\<close> on it do not fail. The \<^verbatim>\<open>catch\<close> branch of \<^verbatim>\<open>handleLogout\<close>,
  which only a failure of the storage reaches, has therefore no counterpart here. The
  \<^verbatim>\<open>catch\<close> branches of \<^verbatim>\<open>doPost\<close>, \<^verbatim>\<open>handleValidateSession\<close> and \<^verbatim>\<open>handleLogin\<close> have
  one: a request, a stored row and the RangeError of \<^verbatim>\<open>storeSession\<close> reach them.
\<close>

type_synonym row = "string list"
type_synonym sheet = "row list"

record spreadsheet =
  usersSheet :: "sheet option"
  sessionsSheet :: "sheet option"

text \<open>
  \<^verbatim>\<open>sheet.getDataRange().getValues()\<close> is a rectangle: every row is filled with empty
  cells up to the width of the widest row, and an empty sheet gives the one empty
  cell \<^verbatim>\<open>[['']]\<close>.
\<close>

definition width :: "sheet \<Rightarrow> nat" where
  "width sh = max 1 (foldr max (map length sh) 0)"

definition pad :: "nat \<Rightarrow> row \<Rightarrow> row" where
  "pad w r = r @ replicate (w - length r) []"

definition getValues :: "sheet \<Rightarrow> row list" where
  "getValues sh = map (pad (width sh)) (if sh = [] then [[]] else sh)"

text \<open>\<^verbatim>\<open>row[i]\<close>: \<^verbatim>\<open>undefined\<close> (\<open>None\<close>) beyond the row's end.\<close>

definition cell_at :: "row \<Rightarrow> nat \<Rightarrow> string option" where
  "cell_at r i = (if i < length r then Some (r ! i) else None)"

fun js :: "string option \<Rightarrow> json" where
  "js None = JUndefined"
| "js (Some s) = JStr s"

definition appendRow :: "sheet \<Rightarrow> row \<Rightarrow> sheet" where
  "appendRow sh r = sh @ [r]"

text \<open>\<^verbatim>\<open>sheet.deleteRow(k)\<close> removes row \<open>k\<close>, counted from 1; the rows below move up.\<close>

definition deleteRow :: "sheet \<Rightarrow> nat \<Rightarrow> sheet" where
  "deleteRow sh k = take (k - 1) sh @ drop k sh"

section \<open>Configuration and helpers\<close>

definition SESSION_TIMEOUT :: int where
  "SESSION_TIMEOUT = 24 * 60 * 60 * 1000"

definition generateSessionToken :: "env \<Rightarrow> string" where
  "generateSessionToken E = uuid_token E @ ''_'' @ decimal (now_token E)"

text \<open>\<^verbatim>\<open>response[k] = v\<close> and \<^verbatim>\<open>Object.assign(response, data)\<close>.\<close>

fun assign1 :: "(string \<times> json) list \<Rightarrow> string \<times> json \<Rightarrow> (string \<times> json) list" where
  "assign1 [] kv = [kv]"
| "assign1 (p # ps) kv = (if fst p = fst kv then kv # ps else p # assign1 ps kv)"

definition Object_assign :: "(string \<times> json) list \<Rightarrow> (string \<times> json) list \<Rightarrow> (string \<times> json) list" where
  "Object_assign target source = foldl assign1 target source"

text \<open>
  \<^verbatim>\<open>createResponse(success, message, data = null)\<close>. The result is the response
  object; the script hands its \<^verbatim>\<open>JSON.stringify\<close> to \<^verbatim>\<open>ContentService\<close>.
\<close>

definition createResponse :: "bool \<Rightarrow> string \<Rightarrow> (string \<times> json) list option \<Rightarrow> json" where
  "createResponse success message data =
     (let response = [(''success'', JBool success), (''message'', JStr message)]
      in JObj (case data of None \<Rightarrow> response | Some d \<Rightarrow> Object_assign response d))"

definition createUsersSheet :: "env \<Rightarrow> sheet" where
  "createUsersSheet E =
     appendRow (appendRow (appendRow (appendRow []
       [''Username'', ''Password'', ''Email'', ''Role'', ''User ID'', ''Chapter ID''])
       [''admin'', ''admin123'', ''admin@dyesabel.org'', ''admin'', uuid_admin E, ''''])
       [''chapter1'', ''chapter123'', ''chapter1@dyesabel.org'', ''chapter_head'', uuid_chapter1 E,
        ''quezon-city''])
       [''editor'', ''editor123'', ''editor@dyesabel.org'', ''editor'', uuid_editor E, '''']"

section \<open>Session management\<close>

text \<open>
  \<^verbatim>\<open>new Date(cell) < now\<close>: the comparison with an invalid date is false.
\<close>

definition new_Date :: "platform \<Rightarrow> string option \<Rightarrow> int option" where
  "new_Date P c = (case c of None \<Rightarrow> None | Some s \<Rightarrow> Date_parse P s)"

definition date_less :: "int option \<Rightarrow> int \<Rightarrow> bool" where
  "date_less d now = (case d of None \<Rightarrow> False | Some t \<Rightarrow> t < now)"

text \<open>
  The loop of \<^verbatim>\<open>cleanupExpiredSessions\<close>, \<^verbatim>\<open>for (i = data.length - 1; i >= 1; i--)\<close>:
  \<open>sweep P now data i sh\<close> runs it from index \<open>i\<close> down on the sheet \<open>sh\<close>, with
  \<open>data\<close> the values read before the loop.
\<close>

primrec sweep :: "platform \<Rightarrow> int \<Rightarrow> row list \<Rightarrow> nat \<Rightarrow> sheet \<Rightarrow> sheet" where
  "sweep P now data 0 sh = sh"
| "sweep P now data (Suc k) sh =
     sweep P now data k
       (if date_less (new_Date P (cell_at (data ! Suc k) 3)) now
        then deleteRow sh (Suc k + 1) else sh)"

definition cleanupExpiredSessions :: "platform \<Rightarrow> env \<Rightarrow> spreadsheet \<Rightarrow> spreadsheet" where
  "cleanupExpiredSessions P E ss =
     (case sessionsSheet ss of
        None \<Rightarrow> ss
      | Some sh \<Rightarrow>
          (let data = getValues sh; now = now_sweep E
           in ss\<lparr>sessionsSheet := Some (sweep P now data (length data - 1) sh)\<rparr>))"

text \<open>
  \<^verbatim>\<open>storeSession\<close>. The cells of the new row are computed before \<^verbatim>\<open>appendRow\<close> is
  called, and the date \<^verbatim>\<open>new Date(now.getTime() + SESSION_TIMEOUT)\<close> is invalid when
  the sum is beyond the range of dates: then \<^verbatim>\<open>expiresAt.toISOString()\<close> throws, and
  the result is \<open>Inl\<close> with the text of the error and the spreadsheet at the throw (the
  Sessions sheet has been created with its header if it did not exist, no row has been
  appended, no sweep has run). The date \<^verbatim>\<open>now\<close> is what the clock gave, a valid date.
\<close>

definition storeSession ::
  "platform \<Rightarrow> env \<Rightarrow> string \<Rightarrow> json \<Rightarrow> spreadsheet \<Rightarrow> (string \<times> spreadsheet) + spreadsheet" where
  "storeSession P E sessionToken user ss =
     (let sessionsSh =
            (case sessionsSheet ss of
               None \<Rightarrow> appendRow [] [''Session Token'', ''User Data'', ''Created At'', ''Expires At'']
             | Some sh \<Rightarrow> sh);
          now = now_store E;
          expiresAt = Date_of_ms (now + SESSION_TIMEOUT)
      in case Date_toISOString P expiresAt of
           Inl err \<Rightarrow> Inl (err, ss\<lparr>sessionsSheet := Some sessionsSh\<rparr>)
         | Inr expiresText \<Rightarrow>
             Inr (cleanupExpiredSessions P E
                    (ss\<lparr>sessionsSheet :=
                          Some (appendRow sessionsSh
                                  [sessionToken, JSON_stringify P user, toISOString P now,
                                   expiresText])\<rparr>)))"

record session =
  sessionToken :: "string option"
  userData :: "string option"
  createdAt :: "string option"
  expiresAt :: "string option"

text \<open>The loop of \<^verbatim>\<open>getSession\<close> over the rows from index 1 on.\<close>

fun getSession_loop :: "row list \<Rightarrow> json \<Rightarrow> session option" where
  "getSession_loop [] tok = None"
| "getSession_loop (r # rs) tok =
     (if strict_eq (js (cell_at r 0)) tok
      then Some \<lparr>sessionToken = cell_at r 0, userData = cell_at r 1,
                  createdAt = cell_at r 2, expiresAt = cell_at r 3\<rparr>
      else getSession_loop rs tok)"

definition getSession :: "json \<Rightarrow> spreadsheet \<Rightarrow> session option" where
  "getSession tok ss =
     (case sessionsSheet ss of
        None \<Rightarrow> None
      | Some sh \<Rightarrow> getSession_loop (drop 1 (getValues sh)) tok)"

definition isSessionExpired :: "platform \<Rightarrow> env \<Rightarrow> session \<Rightarrow> bool" where
  "isSessionExpired P E s = date_less (new_Date P (expiresAt s)) (now_check E)"

section \<open>Authentication handlers\<close>

text \<open>
  The loop of \<^verbatim>\<open>handleLogin\<close> over the rows from index 1 on: the first row whose
  first two cells are strictly equal to the username and the password.
\<close>

fun login_loop :: "row list \<Rightarrow> json \<Rightarrow> json \<Rightarrow> row option" where
  "login_loop [] username password = None"
| "login_loop (r # rs) username password =
     (if strict_eq (js (cell_at r 0)) username \<and> strict_eq (js (cell_at r 1)) password
      then Some r else login_loop rs username password)"

text \<open>
  \<^verbatim>\<open>handleLogin\<close>. An error thrown by \<^verbatim>\<open>storeSession\<close> ends in the \<^verbatim>\<open>catch\<close>, which
  answers \<^verbatim>\<open>Login error\<close> with the text of the error.
\<close>

definition handleLogin ::
  "platform \<Rightarrow> env \<Rightarrow> json \<Rightarrow> json \<Rightarrow> spreadsheet \<Rightarrow> json \<times> spreadsheet" where
  "handleLogin P E username password ss =
     (let usersSh = (case usersSheet ss of None \<Rightarrow> createUsersSheet E | Some sh \<Rightarrow> sh);
          ss1 = ss\<lparr>usersSheet := Some usersSh\<rparr>;
          data = getValues usersSh
      in case login_loop (drop 1 data) username password of
           Some r \<Rightarrow>
             (let token = generateSessionToken E;
                  user = JObj [(''id'', js_or (js (cell_at r 4)) (JStr (uuid_id E))),
                               (''username'', js (cell_at r 0)),
                               (''email'', js (cell_at r 2)),
                               (''role'', js (cell_at r 3)),
                               (''chapterId'', js_or (js (cell_at r 5)) JNull)]
              in case storeSession P E token user ss1 of
                   Inr ss2 \<Rightarrow>
                     (createResponse True ''Login successful''
                        (Some [(''user'', user), (''sessionToken'', JStr token)]), ss2)
                 | Inl (err, ss2) \<Rightarrow>
                     (createResponse False (''Login error: '' @ err) None, ss2))
         | None \<Rightarrow> (createResponse False ''Invalid username or password'' None, ss1))"

text \<open>
  The loop of \<^verbatim>\<open>handleLogout\<close>: \<open>i\<close> is the index of the first row of the list in
  the sheet; the first match is deleted and the loop ends (\<^verbatim>\<open>break\<close>).
\<close>

fun logout_loop :: "row list \<Rightarrow> nat \<Rightarrow> json \<Rightarrow> sheet \<Rightarrow> sheet" where
  "logout_loop [] i tok sh = sh"
| "logout_loop (r # rs) i tok sh =
     (if strict_eq (js (cell_at r 0)) tok then deleteRow sh (i + 1)
      else logout_loop rs (Suc i) tok sh)"

definition handleLogout :: "json \<Rightarrow> spreadsheet \<Rightarrow> json \<times> spreadsheet" where
  "handleLogout tok ss =
     (let ss' = (case sessionsSheet ss of
                   None \<Rightarrow> ss
                 | Some sh \<Rightarrow>
                     ss\<lparr>sessionsSheet := Some (logout_loop (drop 1 (getValues sh)) 1 tok sh)\<rparr>)
      in (createResponse True ''Logged out successfully'' None, ss'))"

text \<open>
  \<^verbatim>\<open>JSON.parse(session.userData)\<close>: the argument is turned into a string first, and
  \<^verbatim>\<open>undefined\<close> becomes the text \<^verbatim>\<open>undefined\<close>. A throw is caught by the handler's
  \<^verbatim>\<open>catch\<close>.
\<close>

definition parse_cell :: "platform \<Rightarrow> string option \<Rightarrow> string + json" where
  "parse_cell P c = JSON_parse P (case c of None \<Rightarrow> ''undefined'' | Some s \<Rightarrow> s)"

definition handleValidateSession ::
  "platform \<Rightarrow> env \<Rightarrow> json \<Rightarrow> spreadsheet \<Rightarrow> json \<times> spreadsheet" where
  "handleValidateSession P E tok ss =
     (case getSession tok ss of
        None \<Rightarrow> (createResponse False ''Invalid or expired session'' None, ss)
      | Some s \<Rightarrow>
          if \<not> isSessionExpired P E s
          then (case parse_cell P (userData s) of
                  Inr u \<Rightarrow> (createResponse True ''Session valid'' (Some [(''user'', u)]), ss)
                | Inl err \<Rightarrow> (createResponse False (''Validation error: '' @ err) None, ss))
          else (createResponse False ''Invalid or expired session'' None, ss))"

section \<open>The main handler\<close>

text \<open>
  \<^verbatim>\<open>doPost(e)\<close> on the request body \<^verbatim>\<open>e.postData.contents\<close>. A body that does not
  parse and a body that is \<^verbatim>\<open>null\<close> (the read of \<^verbatim>\<open>data.action\<close> throws) end in the
  \<^verbatim>\<open>catch\<close>; the \<^verbatim>\<open>switch\<close> compares with \<^verbatim>\<open>===\<close>.
\<close>

definition doPost :: "platform \<Rightarrow> env \<Rightarrow> string \<Rightarrow> spreadsheet \<Rightarrow> json \<times> spreadsheet" where
  "doPost P E contents ss =
     (case JSON_parse P contents of
        Inl err \<Rightarrow> (createResponse False (''Server error: '' @ err) None, ss)
      | Inr data \<Rightarrow>
          (case getProp (typeErrorText P) data ''action'' of
             Inl err \<Rightarrow> (createResponse False (''Server error: '' @ err) None, ss)
           | Inr action \<Rightarrow>
               if strict_eq action (JStr ''login'')
               then handleLogin P E (field data ''username'') (field data ''password'') ss
               else if strict_eq action (JStr ''logout'')
               then handleLogout (field data ''sessionToken'') ss
               else if strict_eq action (JStr ''validateSession'')
               then handleValidateSession P E (field data ''sessionToken'') ss
               else (createResponse False ''Invalid action'' None, ss)))"

section \<open>Notions for stating the properties\<close>

text \<open>
  The first row of a sheet is its header row, the rows below are its data rows
  (\<open>drop 1\<close>). The text of a row's first cell, as \<open>getValues\<close> gives it (an absent
  cell reads as the empty text):
\<close>

definition first_cell :: "row \<Rightarrow> string" where
  "first_cell r = (case r of [] \<Rightarrow> [] | c # cs \<Rightarrow> c)"

text \<open>
  A row of a sheet of width \<open>w\<close> whose expiry, read from its fourth cell, is before
  \<open>now\<close>.
\<close>

definition row_expired :: "platform \<Rightarrow> int \<Rightarrow> nat \<Rightarrow> row \<Rightarrow> bool" where
  "row_expired P now w r = date_less (new_Date P (cell_at (pad w r) 3)) now"

text \<open>A list without the first of its elements that satisfies \<open>p\<close>.\<close>

fun delete_first :: "('a \<Rightarrow> bool) \<Rightarrow> 'a list \<Rightarrow> 'a list" where
  "delete_first p [] = []"
| "delete_first p (x # xs) = (if p x then xs else x # delete_first p xs)"

text \<open>The session object that \<^verbatim>\<open>getSession\<close> makes of a row.\<close>

definition session_of :: "row \<Rightarrow> session" where
  "session_of r = \<lparr>sessionToken = cell_at r 0, userData = cell_at r 1,
                   createdAt = cell_at r 2, expiresAt = cell_at r 3\<rparr>"

text \<open>
  The Users sheet that \<^verbatim>\<open>handleLogin\<close> scans (it is created with the default users
  when it does not exist), the rows read from it, and the user object made of a row.
\<close>

definition users_sheet :: "env \<Rightarrow> spreadsheet \<Rightarrow> sheet" where
  "users_sheet E ss = (case usersSheet ss of None \<Rightarrow> createUsersSheet E | Some sh \<Rightarrow> sh)"

definition users_data :: "env \<Rightarrow> spreadsheet \<Rightarrow> row list" where
  "users_data E ss = getValues (users_sheet E ss)"

definition login_user :: "env \<Rightarrow> row \<Rightarrow> json" where
  "login_user E r =
     JObj [(''id'', js_or (js (cell_at r 4)) (JStr (uuid_id E))),
           (''username'', js (cell_at r 0)),
           (''email'', js (cell_at r 2)),
           (''role'', js (cell_at r 3)),
           (''chapterId'', js_or (js (cell_at r 5)) JNull)]"

text \<open>A response with a boolean \<^verbatim>\<open>success\<close> and a text \<^verbatim>\<open>message\<close>.\<close>

definition is_envelope :: "json \<Rightarrow> bool" where
  "is_envelope v =
     (case field v ''success'' of
        JBool b \<Rightarrow> (case field v ''message'' of JStr m \<Rightarrow> True | _ \<Rightarrow> False)
      | _ \<Rightarrow> False)"

text \<open>The row that \<^verbatim>\<open>storeSession\<close> appends, and the sheet it appends to.\<close>

definition session_row :: "platform \<Rightarrow> env \<Rightarrow> string \<Rightarrow> json \<Rightarrow> row" where
  "session_row P E tok user =
     [tok, JSON_stringify P user, toISOString P (now_store E),
      toISOString P (now_store E + 86400000)]"

definition sessions_base :: "spreadsheet \<Rightarrow> sheet" where
  "sessions_base ss =
     (case sessionsSheet ss of
        None \<Rightarrow> [[''Session Token'', ''User Data'', ''Created At'', ''Expires At'']]
      | Some sh \<Rightarrow> sh)"

section \<open>Example data\<close>

text \<open>
  One platform, one reading of the outside world and a few rows, for the concrete
  instances below. \<open>ex_platform\<close> agrees with the runtime's functions on the
  arguments that the instances give them (\<^verbatim>\<open>JSON.parse('')\<close> throws, a text that is
  no date gives an invalid date, \<^verbatim>\<open>toISOString\<close> on an invalid date throws
  \<^verbatim>\<open>RangeError: Invalid time value\<close>) and is arbitrary elsewhere. The timestamp
  1700000000000 is 2023-11-14T22:13:20.000Z.
\<close>

definition ex_env :: env where
  "ex_env =
     \<lparr>uuid_admin = ''0a6c1f5e-2b7d-4a3c-9e1f-6d2b8c4a7e10'',
      uuid_chapter1 = ''1b7d2a6f-3c8e-4b4d-8f2a-7e3c9d5b8f21'',
      uuid_editor = ''2c8e3b7a-4d9f-4c5e-9a3b-8f4d0e6c9a32'',
      uuid_token = ''3f2b8c1e-9d4a-4c6b-8e2f-5a7d9c0b1e34'',
      now_token = 1700000000000,
      uuid_id = ''7c9e6679-7425-40de-944b-e07fc1f90ae7'',
      now_store = 1700000000001,
      now_sweep = 1700000000002,
      now_check = 1700000000500\<rparr>"

definition ex_token :: string where
  "ex_token = ''3f2b8c1e-9d4a-4c6b-8e2f-5a7d9c0b1e34_1700000000000''"

definition ex_admin :: json where
  "ex_admin =
     JObj [(''id'', JStr ''0a6c1f5e-2b7d-4a3c-9e1f-6d2b8c4a7e10''),
           (''username'', JStr ''admin''),
           (''email'', JStr ''admin@dyesabel.org''),
           (''role'', JStr ''admin''),
           (''chapterId'', JNull)]"

definition ex_admin_text :: string where
  \<open>ex_admin_text =
     ''{"id":"0a6c1f5e-2b7d-4a3c-9e1f-6d2b8c4a7e10","username":"admin","email":"admin@dyesabel.org","role":"admin","chapterId":null}''\<close>

definition ex_maria :: json where
  "ex_maria =
     JObj [(''id'', JStr ''7c9e6679-7425-40de-944b-e07fc1f90ae7''),
           (''username'', JStr ''maria''),
           (''email'', JStr ''maria@dyesabel.org''),
           (''role'', JStr ''editor''),
           (''chapterId'', JNull)]"

definition ex_maria_text :: string where
  \<open>ex_maria_text =
     ''{"id":"7c9e6679-7425-40de-944b-e07fc1f90ae7","username":"maria","email":"maria@dyesabel.org","role":"editor","chapterId":null}''\<close>

definition ex_login_body :: string where
  \<open>ex_login_body = ''{"action":"login","username":"admin","password":"admin123"}''\<close>

definition ex_ping_body :: string where
  \<open>ex_ping_body = ''{"action":"ping"}''\<close>

definition ex_platform :: platform where
  "ex_platform =
     \<lparr>JSON_stringify =
        (\<lambda>v. if v = ex_admin then ex_admin_text
             else if v = ex_maria then ex_maria_text
             else ''null''),
      JSON_parse =
        (\<lambda>s. if s = ex_admin_text then Inr ex_admin
             else if s = ex_maria_text then Inr ex_maria
             else if s = ex_login_body
               then Inr (JObj [(''action'', JStr ''login''), (''username'', JStr ''admin''),
                               (''password'', JStr ''admin123'')])
             else if s = ex_ping_body then Inr (JObj [(''action'', JStr ''ping'')])
             else Inl ''SyntaxError: Unexpected end of JSON input''),
      toISOString =
        (\<lambda>t. if t = 1700000000001 then ''2023-11-14T22:13:20.001Z''
             else if t = 1700086400001 then ''2023-11-15T22:13:20.001Z''
             else []),
      Date_parse =
        (\<lambda>s. if s = ''2023-11-01T00:00:00.000Z'' then Some 1698796800000
             else if s = ''2023-11-15T12:00:00.000Z'' then Some 1700049600000
             else if s = ''2023-11-15T22:13:20.001Z'' then Some 1700086400001
             else None),
      typeErrorText = (\<lambda>k. ''TypeError: Cannot read properties of null''),
      rangeErrorText = ''RangeError: Invalid time value''\<rparr>"

definition ex_header :: row where
  "ex_header = [''Session Token'', ''User Data'', ''Created At'', ''Expires At'']"

definition ex_new_row :: row where
  "ex_new_row = [ex_token, ex_admin_text, ''2023-11-14T22:13:20.001Z'', ''2023-11-15T22:13:20.001Z'']"

definition ex_old_row :: row where
  "ex_old_row =
     [''5d4c3b2a-1f0e-4d9c-8b7a-6f5e4d3c2b1a_1698710400000'', ex_maria_text,
      ''2023-10-31T00:00:00.000Z'', ''2023-11-01T00:00:00.000Z'']"

definition ex_live_row :: row where
  "ex_live_row =
     [''6e5d4c3b-2a1f-4e0d-9c8b-7a6f5e4d3c2b_1699963200000'', ex_maria_text,
      ''2023-11-14T12:00:00.000Z'', ''2023-11-15T12:00:00.000Z'']"

definition ex_fresh :: spreadsheet where
  "ex_fresh = \<lparr>usersSheet = None, sessionsSheet = None\<rparr>"

definition ex_users :: sheet where
  "ex_users =
     [[''Username'', ''Password'', ''Email'', ''Role'', ''User ID'', ''Chapter ID''],
      [''maria'', ''s3cret'', ''maria@dyesabel.org'', ''editor'', '''', '''']]"

definition ex_maria_state :: spreadsheet where
  "ex_maria_state = \<lparr>usersSheet = Some ex_users, sessionsSheet = None\<rparr>"

definition ex_stale :: spreadsheet where
  "ex_stale = \<lparr>usersSheet = None, sessionsSheet = Some [ex_header, ex_old_row]\<rparr>"

definition ex_sessions :: spreadsheet where
  "ex_sessions = \<lparr>usersSheet = None, sessionsSheet = Some [ex_header, ex_old_row, ex_live_row]\<rparr>"

definition ex_broken_row :: row where
  "ex_broken_row = [ex_token, '''', ''2023-11-14T22:13:20.001Z'', ''2023-11-15T22:13:20.001Z'']"

definition ex_broken :: spreadsheet where
  "ex_broken = \<lparr>usersSheet = None, sessionsSheet = Some [ex_header, ex_broken_row]\<rparr>"

definition ex_logged_in :: spreadsheet where
  "ex_logged_in = \<lparr>usersSheet = None, sessionsSheet = Some [ex_header, ex_new_row]\<rparr>"

definition ex_twice :: spreadsheet where
  "ex_twice = \<lparr>usersSheet = None, sessionsSheet = Some [ex_header, ex_new_row, ex_new_row]\<rparr>"

definition ex_empty :: spreadsheet where
  "ex_empty = \<lparr>usersSheet = None, sessionsSheet = Some []\<rparr>"

text \<open>
  A clock at the last valid date (\<open>ex_late_env\<close>), sheets without a header row, whose
  first row is a user or a session, and a Sessions sheet in which a row of another
  user already has the token that \<open>ex_env\<close> generates.
\<close>

definition ex_late_env :: env where
  "ex_late_env = ex_env\<lparr>now_store := 8640000000000000\<rparr>"

definition ex_maria_row0 :: spreadsheet where
  "ex_maria_row0 =
     \<lparr>usersSheet = Some [[''maria'', ''s3cret'', ''maria@dyesabel.org'', ''editor'', '''', '''']],
      sessionsSheet = None\<rparr>"

definition ex_session_row0 :: spreadsheet where
  "ex_session_row0 = \<lparr>usersSheet = None, sessionsSheet = Some [ex_new_row]\<rparr>"

definition ex_old_row0 :: spreadsheet where
  "ex_old_row0 = \<lparr>usersSheet = None, sessionsSheet = Some [ex_old_row]\<rparr>"

definition ex_clash_row :: row where
  "ex_clash_row =
     [ex_token, ex_maria_text, ''2023-11-14T12:00:00.000Z'', ''2023-11-15T12:00:00.000Z'']"

definition ex_clash :: spreadsheet where
  "ex_clash = \<lparr>usersSheet = None, sessionsSheet = Some [ex_header, ex_clash_row]\<rparr>"

section \<open>Reading a sheet\<close>

lemma width_pos: "0 < width sh"
  by (simp add: width_def)

lemma cell_at_pad:
  "cell_at (pad w r) i = (if i < length r then Some (r ! i) else if i < w then Some [] else None)"
  by (auto simp: cell_at_def pad_def nth_append)

lemma cell_at_pad_0: "0 < w \<Longrightarrow> cell_at (pad w r) 0 = Some (first_cell r)"
  by (cases r) (simp_all add: cell_at_pad first_cell_def)

lemma strict_eq_js_JStr: "strict_eq (js c) (JStr s) \<longleftrightarrow> c = Some s"
  by (cases c) (auto simp: strict_eq_def)

lemma strict_eq_JStr: "strict_eq (JStr a) b \<longleftrightarrow> b = JStr a"
  by (auto simp: strict_eq_def)

lemma drop1_getValues: "drop (Suc 0) (getValues sh) = map (pad (width sh)) (drop (Suc 0) sh)"
  by (cases sh) (simp_all add: getValues_def drop_map)

lemma length_getValues: "length (getValues sh) - 1 = length sh - 1"
  by (cases sh) (simp_all add: getValues_def)

lemma getValues_nonempty: "sh \<noteq> [] \<Longrightarrow> getValues sh = map (pad (width sh)) sh"
  by (simp add: getValues_def)

section \<open>The loops\<close>

lemma login_loop_find:
  "login_loop rs (JStr u) (JStr p) = find (\<lambda>r. cell_at r 0 = Some u \<and> cell_at r 1 = Some p) rs"
  by (induction rs) (simp_all add: strict_eq_js_JStr)

lemma getSession_loop_find:
  "0 < w \<Longrightarrow> getSession_loop (map (pad w) rows) (JStr t) =
     map_option (\<lambda>r. session_of (pad w r)) (find (\<lambda>r. first_cell r = t) rows)"
  by (induction rows) (auto simp: strict_eq_JStr cell_at_pad_0 session_of_def)

lemma getSession_find:
  "sessionsSheet ss = Some sh \<Longrightarrow>
   getSession (JStr t) ss =
     map_option (\<lambda>r. session_of (pad (width sh) r)) (find (\<lambda>r. first_cell r = t) (drop 1 sh))"
  by (simp add: getSession_def drop1_getValues getSession_loop_find width_pos)

text \<open>
  The sweep runs from the bottom: when it is at index \<open>k\<close>, the rows up to \<open>k\<close> are
  still those of the sheet it started on, whatever it has done to the rows below.
\<close>

lemma sweep_take:
  "Suc k \<le> length sh0 \<Longrightarrow>
   sweep P now (map (pad w) sh0) k (take (Suc k) sh0 @ rest) =
     take 1 sh0 @ filter (\<lambda>r. \<not> row_expired P now w r) (drop 1 (take (Suc k) sh0)) @ rest"
proof (induction k arbitrary: rest)
  case 0
  then show ?case by (cases sh0) simp_all
next
  case (Suc k)
  let ?x = "sh0 ! Suc k"
  let ?keep = "\<lambda>r. \<not> row_expired P now w r"
  from Suc.prems have len: "Suc k < length sh0" by simp
  have tk: "take (Suc (Suc k)) sh0 = take (Suc k) sh0 @ [?x]"
    using len by (simp add: take_Suc_conv_app_nth)
  have lt: "length (take (Suc k) sh0) = Suc k" using len by simp
  have del: "deleteRow (take (Suc (Suc k)) sh0 @ rest) (Suc k + 1) = take (Suc k) sh0 @ rest"
    unfolding tk deleteRow_def using lt by simp
  have dat: "map (pad w) sh0 ! Suc k = pad w ?x"
    using len by simp
  have dr: "drop 1 (take (Suc (Suc k)) sh0) = drop 1 (take (Suc k) sh0) @ [?x]"
    unfolding tk using lt by simp
  show ?case
  proof (cases "row_expired P now w ?x")
    case True
    have "sweep P now (map (pad w) sh0) (Suc k) (take (Suc (Suc k)) sh0 @ rest) =
          sweep P now (map (pad w) sh0) k (take (Suc k) sh0 @ rest)"
      using True del dat by (simp add: row_expired_def)
    also have "\<dots> = take 1 sh0 @ filter ?keep (drop 1 (take (Suc k) sh0)) @ rest"
      using Suc.IH [of rest] len by simp
    finally show ?thesis
      using True by (simp only: dr filter_append filter.simps if_False append_assoc
          append_Nil2 simp_thms)
  next
    case False
    have "sweep P now (map (pad w) sh0) (Suc k) (take (Suc (Suc k)) sh0 @ rest) =
          sweep P now (map (pad w) sh0) k (take (Suc k) sh0 @ ([?x] @ rest))"
      using False dat tk by (simp add: row_expired_def)
    also have "\<dots> = take 1 sh0 @ filter ?keep (drop 1 (take (Suc k) sh0)) @ ([?x] @ rest)"
      using Suc.IH [of "[?x] @ rest"] len by simp
    finally show ?thesis
      using False by (simp only: dr filter_append filter.simps if_True append_assoc
          append_Nil2 simp_thms append.simps)
  qed
qed

lemma sweep_sheet:
  "sweep P now (getValues sh) (length (getValues sh) - 1) sh =
     take 1 sh @ filter (\<lambda>r. \<not> row_expired P now (width sh) r) (drop 1 sh)"
proof (cases sh)
  case Nil
  then show ?thesis by (simp add: getValues_def)
next
  case (Cons r rs)
  then have ne: "sh \<noteq> []" by simp
  have k: "Suc (length sh - 1) = length sh" using ne by simp
  have "sweep P now (map (pad (width sh)) sh) (length sh - 1) (take (Suc (length sh - 1)) sh @ []) =
        take 1 sh @ filter (\<lambda>r. \<not> row_expired P now (width sh) r)
          (drop 1 (take (Suc (length sh - 1)) sh)) @ []"
    by (rule sweep_take) (use ne in simp)
  then show ?thesis
    using ne by (simp add: k getValues_nonempty length_getValues)
qed

lemma subseq_sweep_result:
  "subseq (take 1 all @ filter q (drop 1 all)) all"
proof -
  have "subseq (take 1 all @ filter q (drop 1 all)) (take 1 all @ drop 1 all)"
    by (simp only: subseq_append' subseq_filter_left)
  then show ?thesis by simp
qed

lemma logout_loop_delete:
  "0 < w \<Longrightarrow>
   logout_loop (map (pad w) rows) (length pre) (JStr t) (pre @ rows) =
     pre @ delete_first (\<lambda>r. first_cell r = t) rows"
proof (induction rows arbitrary: pre)
  case Nil
  then show ?case by simp
next
  case (Cons r rows)
  show ?case
  proof (cases "first_cell r = t")
    case True
    then show ?thesis using Cons.prems by (simp add: strict_eq_JStr cell_at_pad_0 deleteRow_def)
  next
    case False
    have "logout_loop (map (pad w) rows) (length (pre @ [r])) (JStr t) ((pre @ [r]) @ rows) =
          (pre @ [r]) @ delete_first (\<lambda>r. first_cell r = t) rows"
      by (rule Cons.IH [OF Cons.prems])
    then show ?thesis using False Cons.prems by (simp add: strict_eq_JStr cell_at_pad_0)
  qed
qed

lemma logout_sheet:
  "logout_loop (drop 1 (getValues sh)) 1 (JStr t) sh =
     take 1 sh @ delete_first (\<lambda>r. first_cell r = t) (drop 1 sh)"
proof (cases sh)
  case Nil
  then show ?thesis by (simp add: getValues_def)
next
  case (Cons h rows)
  have "logout_loop (map (pad (width sh)) rows) (length [h]) (JStr t) ([h] @ rows) =
        [h] @ delete_first (\<lambda>r. first_cell r = t) rows"
    by (rule logout_loop_delete [OF width_pos])
  then show ?thesis using Cons by (simp add: drop1_getValues)
qed

lemma find_delete_first:
  "length (filter p xs) \<le> 1 \<Longrightarrow> find p (delete_first p xs) = None"
proof (induction xs)
  case Nil
  then show ?case by simp
next
  case (Cons x xs)
  show ?case
  proof (cases "p x")
    case True
    with Cons.prems have "filter p xs = []" by simp
    then show ?thesis using True by (simp add: find_None_iff filter_empty_conv)
  next
    case False
    then show ?thesis using Cons by simp
  qed
qed

lemma find_append_last:
  "\<forall>x \<in> set xs. \<not> p x \<Longrightarrow> p y \<Longrightarrow> find p (xs @ [y]) = Some y"
  by (induction xs) simp_all

lemma subseq_deleteRow: "subseq (deleteRow sh k) sh"
proof -
  have "subseq (take (k - 1) sh @ drop k sh) (take (k - 1) sh @ drop (k - 1) sh)"
    unfolding subseq_append'
    by (cases k) (simp_all add: drop_Suc suffix_imp_subseq flip: tl_drop)
  then show ?thesis by (simp add: deleteRow_def)
qed

lemma subseq_logout_loop: "subseq (logout_loop rs i tok sh) sh"
  by (induction rs arbitrary: i) (simp_all add: subseq_deleteRow)

section \<open>Responses\<close>

lemma createResponse_None:
  "createResponse b m None = JObj [(''success'', JBool b), (''message'', JStr m)]"
  by (simp add: createResponse_def)

lemma createResponse_user:
  "createResponse b m (Some [(''user'', u)]) =
     JObj [(''success'', JBool b), (''message'', JStr m), (''user'', u)]"
  by (simp add: createResponse_def Object_assign_def)

lemma createResponse_login:
  "createResponse b m (Some [(''user'', u), (''sessionToken'', t)]) =
     JObj [(''success'', JBool b), (''message'', JStr m), (''user'', u), (''sessionToken'', t)]"
  by (simp add: createResponse_def Object_assign_def)

lemma is_envelope_createResponse_None: "is_envelope (createResponse b m None)"
  by (simp add: createResponse_None is_envelope_def field_def)

lemma is_envelope_createResponse_user: "is_envelope (createResponse b m (Some [(''user'', u)]))"
  by (simp add: createResponse_user is_envelope_def field_def)

lemma is_envelope_createResponse_login:
  "is_envelope (createResponse b m (Some [(''user'', u), (''sessionToken'', t)]))"
  by (simp add: createResponse_login is_envelope_def field_def)

section \<open>Storing and sweeping sessions\<close>

lemma cleanup_sheet:
  "sessionsSheet ss = Some sh \<Longrightarrow>
   cleanupExpiredSessions P E ss =
     ss\<lparr>sessionsSheet :=
          Some (take 1 sh @ filter (\<lambda>r. \<not> row_expired P (now_sweep E) (width sh) r) (drop 1 sh))\<rparr>"
  by (simp add: cleanupExpiredSessions_def Let_def sweep_sheet del: One_nat_def)

lemma storeSession_sheet:
  "valid_time (now_store E + 86400000) \<Longrightarrow>
   storeSession P E tok user ss =
     Inr (ss\<lparr>sessionsSheet :=
       Some (let all = sessions_base ss @ [session_row P E tok user]
             in take 1 all @ filter (\<lambda>r. \<not> row_expired P (now_sweep E) (width all) r) (drop 1 all))\<rparr>)"
  by (cases "sessionsSheet ss")
     (simp_all add: storeSession_def Let_def cleanup_sheet sessions_base_def session_row_def
        appendRow_def SESSION_TIMEOUT_def Date_of_ms_def Date_toISOString_def)

lemma storeSession_throw:
  "\<not> valid_time (now_store E + 86400000) \<Longrightarrow>
   storeSession P E tok user ss =
     Inl (rangeErrorText P, ss\<lparr>sessionsSheet := Some (sessions_base ss)\<rparr>)"
  by (cases "sessionsSheet ss")
     (simp_all add: storeSession_def Let_def sessions_base_def appendRow_def
        SESSION_TIMEOUT_def Date_of_ms_def Date_toISOString_def)

lemma row_expired_session_row:
  assumes "Date_parse P (toISOString P (now_store E + 86400000)) = Some (now_store E + 86400000)"
  shows "row_expired P now w (session_row P E tok user) \<longleftrightarrow> now_store E + 86400000 < now"
  using assms by (simp add: row_expired_def session_row_def cell_at_pad new_Date_def date_less_def)

lemma storeSession_kept:
  assumes "valid_time (now_store E + 86400000)"
    and "\<not> row_expired P (now_sweep E) (width (sessions_base ss @ [session_row P E tok user]))
             (session_row P E tok user)"
  shows "storeSession P E tok user ss =
           Inr (ss\<lparr>sessionsSheet :=
             Some (take 1 (sessions_base ss) @
                   filter (\<lambda>r. \<not> row_expired P (now_sweep E)
                                  (width (sessions_base ss @ [session_row P E tok user])) r)
                     (drop 1 (sessions_base ss)) @
                   [session_row P E tok user])\<rparr>)"
  using assms(2)
  by (cases "sessions_base ss") (simp_all add: storeSession_sheet [OF assms(1)] Let_def)

lemma storeSession_rows:
  "\<exists>sh'. sessionsSheet (case storeSession P E tok user ss of Inl (err, ss') \<Rightarrow> ss' | Inr ss' \<Rightarrow> ss')
            = Some sh'
          \<and> subseq sh' (sessions_base ss @ [session_row P E tok user])"
proof (cases "valid_time (now_store E + 86400000)")
  case True
  show ?thesis
    unfolding storeSession_sheet [OF True] Let_def
    using subseq_sweep_result [of "sessions_base ss @ [session_row P E tok user]"]
    by (simp del: take_append drop_append One_nat_def)
next
  case False
  then show ?thesis by (simp add: storeSession_throw subseq_rev_drop_many)
qed

lemma unchanged_rows:
  "case sessionsSheet ss of
     None \<Rightarrow> sessionsSheet ss = None
   | Some sh' \<Rightarrow> \<exists>u. subseq sh' (sessions_base ss @ [session_row P E tok u])"
  by (cases "sessionsSheet ss") (simp_all add: sessions_base_def subseq_rev_drop_many)

lemma sessions_base_users [simp]: "sessions_base (ss\<lparr>usersSheet := us\<rparr>) = sessions_base ss"
  by (simp add: sessions_base_def)

lemma first_cell_session_row: "first_cell (session_row P E tok user) = tok"
  by (simp add: first_cell_def session_row_def)

lemma parse_session_row:
  "parse_cell P (cell_at (pad w (session_row P E tok user)) 1) = JSON_parse P (JSON_stringify P user)"
  by (simp add: parse_cell_def cell_at_pad session_row_def)

section \<open>The handlers\<close>

lemma users_data_sheet: "users_data E ss = getValues (users_sheet E ss)"
  by (simp add: users_data_def)

lemma login_user_fields:
  "login_user E r =
     JObj [(''id'', (case cell_at r 4 of None \<Rightarrow> JStr (uuid_id E)
                     | Some i \<Rightarrow> if i = [] then JStr (uuid_id E) else JStr i)),
           (''username'', js (cell_at r 0)),
           (''email'', js (cell_at r 2)),
           (''role'', js (cell_at r 3)),
           (''chapterId'', (case cell_at r 5 of None \<Rightarrow> JNull
                            | Some c \<Rightarrow> if c = [] then JNull else JStr c))]"
  by (simp add: login_user_def js_or_def split: option.splits)

lemma generateSessionToken_nonempty: "generateSessionToken E \<noteq> []"
  by (simp add: generateSessionToken_def)

lemma handleLogin_match:
  assumes "find (\<lambda>r. cell_at r 0 = Some u \<and> cell_at r 1 = Some p) (drop 1 (users_data E ss)) = Some r"
  shows "handleLogin P E (JStr u) (JStr p) ss =
           (case storeSession P E (generateSessionToken E) (login_user E r)
                   (ss\<lparr>usersSheet := Some (users_sheet E ss)\<rparr>) of
              Inr ss2 \<Rightarrow>
                (JObj [(''success'', JBool True), (''message'', JStr ''Login successful''),
                       (''user'', login_user E r),
                       (''sessionToken'', JStr (generateSessionToken E))], ss2)
            | Inl (err, ss2) \<Rightarrow>
                (JObj [(''success'', JBool False), (''message'', JStr (''Login error: '' @ err))],
                 ss2))"
  using assms
  by (simp add: handleLogin_def Let_def login_loop_find users_data_def users_sheet_def
      login_user_def createResponse_login createResponse_None del: One_nat_def
      split: sum.splits prod.splits)

lemma handleLogin_stored:
  assumes "find (\<lambda>r. cell_at r 0 = Some u \<and> cell_at r 1 = Some p) (drop 1 (users_data E ss)) = Some r"
    and "storeSession P E (generateSessionToken E) (login_user E r)
           (ss\<lparr>usersSheet := Some (users_sheet E ss)\<rparr>) = Inr ss2"
  shows "handleLogin P E (JStr u) (JStr p) ss =
           (JObj [(''success'', JBool True), (''message'', JStr ''Login successful''),
                  (''user'', login_user E r),
                  (''sessionToken'', JStr (generateSessionToken E))], ss2)"
  by (simp add: handleLogin_match [OF assms(1)] assms(2))

lemma handleLogin_throw:
  assumes "find (\<lambda>r. cell_at r 0 = Some u \<and> cell_at r 1 = Some p) (drop 1 (users_data E ss)) = Some r"
    and "\<not> valid_time (now_store E + 86400000)"
  shows "handleLogin P E (JStr u) (JStr p) ss =
           (JObj [(''success'', JBool False),
                  (''message'', JStr (''Login error: '' @ rangeErrorText P))],
            ss\<lparr>usersSheet := Some (users_sheet E ss), sessionsSheet := Some (sessions_base ss)\<rparr>)"
  by (simp add: handleLogin_match [OF assms(1)] storeSession_throw [OF assms(2)])

lemma handleLogin_no_match:
  assumes "find (\<lambda>r. cell_at r 0 = Some u \<and> cell_at r 1 = Some p) (drop 1 (users_data E ss)) = None"
  shows "handleLogin P E (JStr u) (JStr p) ss =
           (JObj [(''success'', JBool False), (''message'', JStr ''Invalid username or password'')],
            ss\<lparr>usersSheet := Some (users_sheet E ss)\<rparr>)"
  using assms
  by (simp add: handleLogin_def Let_def login_loop_find users_data_def users_sheet_def
      createResponse_None del: One_nat_def)

lemma handleLogin_success:
  assumes "field (fst (handleLogin P E (JStr u) (JStr p) ss)) ''success'' = JBool True"
  shows "valid_time (now_store E + 86400000)
         \<and> (\<exists>r. find (\<lambda>r. cell_at r 0 = Some u \<and> cell_at r 1 = Some p)
                   (drop 1 (users_data E ss)) = Some r)"
proof (cases "find (\<lambda>r. cell_at r 0 = Some u \<and> cell_at r 1 = Some p) (drop 1 (users_data E ss))")
  case None
  with assms show ?thesis by (simp add: handleLogin_no_match field_def)
next
  case (Some r)
  with assms show ?thesis
    by (cases "valid_time (now_store E + 86400000)") (simp_all add: handleLogin_throw field_def)
qed

lemma handleLogin_rows:
  "case sessionsSheet (snd (handleLogin P E un pw ss)) of
     None \<Rightarrow> sessionsSheet ss = None
   | Some sh' \<Rightarrow> \<exists>u. subseq sh' (sessions_base ss @ [session_row P E (generateSessionToken E) u])"
proof (cases "login_loop (drop 1 (getValues (users_sheet E ss))) un pw")
  case None
  then have "sessionsSheet (snd (handleLogin P E un pw ss)) = sessionsSheet ss"
    by (simp add: handleLogin_def Let_def users_sheet_def)
  then show ?thesis using unchanged_rows [of ss P E] by simp
next
  case (Some r)
  let ?user = "JObj [(''id'', js_or (js (cell_at r 4)) (JStr (uuid_id E))),
                     (''username'', js (cell_at r 0)),
                     (''email'', js (cell_at r 2)),
                     (''role'', js (cell_at r 3)),
                     (''chapterId'', js_or (js (cell_at r 5)) JNull)]"
  let ?ss1 = "ss\<lparr>usersSheet := Some (users_sheet E ss)\<rparr>"
  have "snd (handleLogin P E un pw ss) =
          (case storeSession P E (generateSessionToken E) ?user ?ss1 of
             Inl (err, ss') \<Rightarrow> ss' | Inr ss' \<Rightarrow> ss')"
    using Some
    by (simp add: handleLogin_def Let_def users_sheet_def split: sum.splits prod.splits)
  moreover obtain sh' where
    "sessionsSheet (case storeSession P E (generateSessionToken E) ?user ?ss1 of
                      Inl (err, ss') \<Rightarrow> ss' | Inr ss' \<Rightarrow> ss') = Some sh'"
    "subseq sh' (sessions_base ss @ [session_row P E (generateSessionToken E) ?user])"
    using storeSession_rows [of P E "generateSessionToken E" ?user ?ss1]
    by auto
  ultimately show ?thesis by auto
qed

lemma handleLogout_sheet:
  "handleLogout (JStr t) ss =
     (JObj [(''success'', JBool True), (''message'', JStr ''Logged out successfully'')],
      case sessionsSheet ss of
        None \<Rightarrow> ss
      | Some sh \<Rightarrow>
          ss\<lparr>sessionsSheet := Some (take 1 sh @ delete_first (\<lambda>r. first_cell r = t) (drop 1 sh))\<rparr>)"
  by (simp add: handleLogout_def Let_def logout_sheet createResponse_None del: One_nat_def
      split: option.splits)

lemma handleLogout_response:
  "fst (handleLogout tok ss) =
     JObj [(''success'', JBool True), (''message'', JStr ''Logged out successfully'')]"
  by (simp add: handleLogout_def Let_def createResponse_None)

lemma handleLogout_rows:
  "case sessionsSheet (snd (handleLogout tok ss)) of
     None \<Rightarrow> sessionsSheet ss = None
   | Some sh' \<Rightarrow> \<exists>u. subseq sh' (sessions_base ss @ [session_row P E t u])"
  by (cases "sessionsSheet ss")
     (simp_all add: handleLogout_def Let_def sessions_base_def subseq_logout_loop
        subseq_rev_drop_many)

lemma handleValidateSession_state: "snd (handleValidateSession P E tok ss) = ss"
  by (simp add: handleValidateSession_def split: option.splits sum.splits)

lemma handleValidateSession_find:
  "fst (handleValidateSession P E (JStr t) ss) =
     (case sessionsSheet ss of
        None \<Rightarrow> JObj [(''success'', JBool False), (''message'', JStr ''Invalid or expired session'')]
      | Some sh \<Rightarrow>
          (case find (\<lambda>r. first_cell r = t) (drop 1 sh) of
             None \<Rightarrow> JObj [(''success'', JBool False), (''message'', JStr ''Invalid or expired session'')]
           | Some r \<Rightarrow>
               if row_expired P (now_check E) (width sh) r
               then JObj [(''success'', JBool False), (''message'', JStr ''Invalid or expired session'')]
               else (case parse_cell P (cell_at (pad (width sh) r) 1) of
                       Inr user \<Rightarrow> JObj [(''success'', JBool True), (''message'', JStr ''Session valid''),
                                          (''user'', user)]
                     | Inl err \<Rightarrow> JObj [(''success'', JBool False),
                                         (''message'', JStr (''Validation error: '' @ err))])))"
proof (cases "sessionsSheet ss")
  case None
  then show ?thesis
    by (simp add: handleValidateSession_def getSession_def createResponse_None)
next
  case (Some sh)
  show ?thesis
    by (simp add: handleValidateSession_def getSession_find [OF Some] Some createResponse_None
        createResponse_user isSessionExpired_def row_expired_def session_of_def
        del: One_nat_def split: option.splits sum.splits)
qed

lemma validate_users_independent:
  "fst (handleValidateSession P E tok (ss\<lparr>usersSheet := us\<rparr>)) = fst (handleValidateSession P E tok ss)"
  by (simp add: handleValidateSession_def getSession_def split: option.splits sum.splits)

lemma validate_after_store:
  assumes valid: "valid_time (now_store E + 86400000)"
    and header: "sessionsSheet ss \<noteq> Some []"
    and fresh: "tok \<notin> first_cell ` set (drop 1 (sessions_base ss))"
    and json: "JSON_parse P (JSON_stringify P user) = Inr v"
    and date: "Date_parse P (toISOString P (now_store E + 86400000)) = Some (now_store E + 86400000)"
    and sweep_time: "now_sweep E \<le> now_store E + 86400000"
    and check_time: "now_check E' \<le> now_store E + 86400000"
  shows "\<exists>ss'. storeSession P E tok user ss = Inr ss'
           \<and> fst (handleValidateSession P E' (JStr tok) ss') =
               JObj [(''success'', JBool True), (''message'', JStr ''Session valid''), (''user'', v)]"
proof -
  let ?new = "session_row P E tok user"
  let ?w = "width (sessions_base ss @ [?new])"
  let ?kept = "filter (\<lambda>r. \<not> row_expired P (now_sweep E) ?w r) (drop 1 (sessions_base ss))"
  let ?sh = "take 1 (sessions_base ss) @ ?kept @ [?new]"
  have ne: "sessions_base ss \<noteq> []"
    using header by (cases "sessionsSheet ss") (simp_all add: sessions_base_def)
  have stored: "storeSession P E tok user ss = Inr (ss\<lparr>sessionsSheet := Some ?sh\<rparr>)"
    by (rule storeSession_kept [OF valid])
       (use sweep_time in \<open>simp add: row_expired_session_row [OF date]\<close>)
  have rows: "drop 1 ?sh = ?kept @ [?new]"
    using ne by (cases "sessions_base ss") simp_all
  have "\<forall>x \<in> set ?kept. \<not> first_cell x = tok"
    using fresh by auto
  then have found: "find (\<lambda>r. first_cell r = tok) (drop 1 ?sh) = Some ?new"
    unfolding rows by (rule find_append_last) (rule first_cell_session_row)
  have live: "\<not> row_expired P (now_check E') (width ?sh) ?new"
    using check_time by (simp add: row_expired_session_row [OF date])
  have s: "sessionsSheet (ss\<lparr>sessionsSheet := Some ?sh\<rparr>) = Some ?sh" by simp
  have "fst (handleValidateSession P E' (JStr tok) (ss\<lparr>sessionsSheet := Some ?sh\<rparr>)) =
          JObj [(''success'', JBool True), (''message'', JStr ''Session valid''), (''user'', v)]"
    unfolding handleValidateSession_find s option.case found
    using live by (simp add: parse_session_row json del: One_nat_def)
  with stored show ?thesis by blast
qed

lemma is_envelope_handleLogin: "is_envelope (fst (handleLogin P E username password ss))"
  by (simp add: handleLogin_def Let_def is_envelope_createResponse_None
      is_envelope_createResponse_login split: option.splits sum.splits prod.splits)

lemma is_envelope_handleLogout: "is_envelope (fst (handleLogout tok ss))"
  by (simp add: handleLogout_def Let_def is_envelope_createResponse_None)

lemma is_envelope_handleValidateSession:
  "is_envelope (fst (handleValidateSession P E tok ss))"
  by (simp add: handleValidateSession_def is_envelope_createResponse_None
      is_envelope_createResponse_user split: option.splits sum.splits)

lemma doPost_cases:
  "doPost P E c ss =
     (case JSON_parse P c of
        Inl err \<Rightarrow> (JObj [(''success'', JBool False), (''message'', JStr (''Server error: '' @ err))], ss)
      | Inr data \<Rightarrow>
          if data = JNull \<or> data = JUndefined
          then (JObj [(''success'', JBool False),
                      (''message'', JStr (''Server error: '' @ typeErrorText P ''action''))], ss)
          else if field data ''action'' = JStr ''login''
          then handleLogin P E (field data ''username'') (field data ''password'') ss
          else if field data ''action'' = JStr ''logout''
          then handleLogout (field data ''sessionToken'') ss
          else if field data ''action'' = JStr ''validateSession''
          then handleValidateSession P E (field data ''sessionToken'') ss
          else (JObj [(''success'', JBool False), (''message'', JStr ''Invalid action'')], ss))"
proof (cases "JSON_parse P c")
  case (Inl err)
  then show ?thesis by (simp add: doPost_def createResponse_None)
next
  case (Inr data)
  have eq: "strict_eq a (JStr s) \<longleftrightarrow> a = JStr s" for a s
    by (auto simp: strict_eq_def)
  show ?thesis
    by (cases data) (simp_all add: doPost_def Inr getProp_def field_def createResponse_None eq)
qed

section \<open>The example data, evaluated\<close>

lemma decimal_nat_small: "n < 10 \<Longrightarrow> decimal_nat n = [digit n]"
  by (simp add: decimal_nat.simps)

lemma decimal_nat_big: "10 \<le> n \<Longrightarrow> decimal_nat n = decimal_nat (n div 10) @ [digit (n mod 10)]"
  by (subst decimal_nat.simps) simp

lemma ex_token_eq: "generateSessionToken ex_env = ex_token"
  by (simp add: generateSessionToken_def ex_env_def ex_token_def decimal_def decimal_nat_small decimal_nat_big digit_def)

lemma ex_users_data:
  "drop 1 (users_data ex_env ex_fresh) =
    [[''admin'', ''admin123'', ''admin@dyesabel.org'', ''admin'', ''0a6c1f5e-2b7d-4a3c-9e1f-6d2b8c4a7e10'', ''''],
     [''chapter1'', ''chapter123'', ''chapter1@dyesabel.org'', ''chapter_head'', ''1b7d2a6f-3c8e-4b4d-8f2a-7e3c9d5b8f21'', ''quezon-city''],
     [''editor'', ''editor123'', ''editor@dyesabel.org'', ''editor'', ''2c8e3b7a-4d9f-4c5e-9a3b-8f4d0e6c9a32'', '''']]"
  by (simp add: users_data_sheet users_sheet_def ex_fresh_def createUsersSheet_def appendRow_def ex_env_def getValues_def width_def pad_def)

lemma ex_find_admin:
  "find (\<lambda>r. cell_at r 0 = Some ''admin'' \<and> cell_at r 1 = Some ''admin123'') (drop 1 (users_data ex_env ex_fresh)) =
    Some [''admin'', ''admin123'', ''admin@dyesabel.org'', ''admin'', ''0a6c1f5e-2b7d-4a3c-9e1f-6d2b8c4a7e10'', '''']"
  by (simp add: ex_users_data cell_at_def del: One_nat_def)

lemma ex_login_user:
  "login_user ex_env [''admin'', ''admin123'', ''admin@dyesabel.org'', ''admin'', ''0a6c1f5e-2b7d-4a3c-9e1f-6d2b8c4a7e10'', ''''] = ex_admin"
  by (simp add: login_user_def cell_at_def js_or_def ex_admin_def)

lemma ex_stale_users: "users_data ex_env ex_stale = users_data ex_env ex_fresh"
  by (simp add: users_data_def users_sheet_def ex_stale_def ex_fresh_def)

lemma ex_sessions_users: "users_data ex_env ex_sessions = users_data ex_env ex_fresh"
  by (simp add: users_data_def users_sheet_def ex_sessions_def ex_fresh_def)

lemma ex_maria_data:
  "drop 1 (users_data ex_env ex_maria_state) =
     [[''maria'', ''s3cret'', ''maria@dyesabel.org'', ''editor'', '''', '''']]"
  by (simp add: users_data_def users_sheet_def ex_maria_state_def ex_users_def getValues_def
      width_def pad_def)

lemma ex_old_expired: "row_expired ex_platform 1700000000002 w ex_old_row"
  by (simp add: row_expired_def ex_old_row_def cell_at_pad new_Date_def date_less_def ex_platform_def)

lemma ex_live_not_expired: "\<not> row_expired ex_platform 1700000000002 w ex_live_row"
  by (simp add: row_expired_def ex_live_row_def cell_at_pad new_Date_def date_less_def ex_platform_def)

lemma ex_new_not_expired: "\<not> row_expired ex_platform (now_check ex_env) w ex_new_row"
  by (simp add: row_expired_def ex_new_row_def cell_at_pad new_Date_def date_less_def
      ex_platform_def ex_env_def)

lemma ex_broken_not_expired: "\<not> row_expired ex_platform (now_check ex_env) w ex_broken_row"
  by (simp add: row_expired_def ex_broken_row_def cell_at_pad new_Date_def date_less_def
      ex_platform_def ex_env_def)

lemma ex_session_row: "session_row ex_platform ex_env ex_token ex_admin = ex_new_row"
  by (simp add: session_row_def ex_new_row_def ex_platform_def ex_env_def)

lemma ex_date: "Date_parse ex_platform (toISOString ex_platform (now_store ex_env + 86400000)) = Some (now_store ex_env + 86400000)"
  by (simp add: ex_platform_def ex_env_def)

lemma ex_first_cells:
  "first_cell ex_header = ''Session Token''" "first_cell ex_new_row = ex_token"
  "first_cell ex_broken_row = ex_token"
  by (simp_all add: first_cell_def ex_header_def ex_new_row_def ex_broken_row_def)

lemma ex_parse_new: "parse_cell ex_platform (cell_at (pad w ex_new_row) (Suc 0)) = Inr ex_admin"
  by (simp add: parse_cell_def cell_at_pad ex_new_row_def ex_platform_def)

lemma ex_parse_broken:
  "parse_cell ex_platform (cell_at (pad w ex_broken_row) (Suc 0)) =
     Inl ''SyntaxError: Unexpected end of JSON input''"
  by (simp add: parse_cell_def cell_at_pad ex_broken_row_def ex_platform_def ex_admin_text_def
      ex_maria_text_def ex_login_body_def ex_ping_body_def)

lemma ex_parse_bodies:
  "JSON_parse ex_platform ex_login_body =
     Inr (JObj [(''action'', JStr ''login''), (''username'', JStr ''admin''),
                (''password'', JStr ''admin123'')])"
  "JSON_parse ex_platform ex_ping_body = Inr (JObj [(''action'', JStr ''ping'')])"
  "JSON_parse ex_platform [] = Inl ''SyntaxError: Unexpected end of JSON input''"
  by (simp_all add: ex_platform_def ex_login_body_def ex_ping_body_def ex_admin_text_def
      ex_maria_text_def)

lemma ex_valid: "valid_time (now_store ex_env + 86400000)"
  by (simp add: valid_time_def ex_env_def)

lemma ex_late_invalid: "\<not> valid_time (now_store ex_late_env + 86400000)"
  by (simp add: valid_time_def ex_late_env_def)

lemma ex_late_users: "users_data ex_late_env ex_fresh = users_data ex_env ex_fresh"
  by (simp add: users_data_def users_sheet_def ex_fresh_def createUsersSheet_def ex_late_env_def)

lemma ex_clash_users: "users_data ex_env ex_clash = users_data ex_env ex_fresh"
  by (simp add: users_data_def users_sheet_def ex_clash_def ex_fresh_def)

lemma ex_empty_users: "users_data ex_env ex_empty = users_data ex_env ex_fresh"
  by (simp add: users_data_def users_sheet_def ex_empty_def ex_fresh_def)

lemma ex_new_live:
  assumes "t \<le> 1700086400001"
  shows "\<not> row_expired ex_platform t w ex_new_row"
  using assms
  by (simp add: row_expired_def ex_new_row_def cell_at_pad new_Date_def date_less_def
      ex_platform_def)

lemma ex_clash_not_expired:
  assumes "t \<le> 1700049600000"
  shows "\<not> row_expired ex_platform t w ex_clash_row"
  using assms
  by (simp add: row_expired_def ex_clash_row_def cell_at_pad new_Date_def date_less_def
      ex_platform_def)

lemma ex_parse_clash: "parse_cell ex_platform (cell_at (pad w ex_clash_row) (Suc 0)) = Inr ex_maria"
  by (simp add: parse_cell_def cell_at_pad ex_clash_row_def ex_platform_def ex_admin_text_def
      ex_maria_text_def)

lemma ex_admin_stored:
  assumes "users_data ex_env ss = users_data ex_env ex_fresh"
    and "storeSession ex_platform ex_env ex_token ex_admin
           (ss\<lparr>usersSheet := Some (users_sheet ex_env ss)\<rparr>) = Inr ss2"
  shows "handleLogin ex_platform ex_env (JStr ''admin'') (JStr ''admin123'') ss =
     (JObj [(''success'', JBool True), (''message'', JStr ''Login successful''),
            (''user'', ex_admin), (''sessionToken'', JStr ex_token)], ss2)"
proof -
  have f: "find (\<lambda>r. cell_at r 0 = Some ''admin'' \<and> cell_at r 1 = Some ''admin123'')
             (drop 1 (users_data ex_env ss)) =
           Some [''admin'', ''admin123'', ''admin@dyesabel.org'', ''admin'',
                 ''0a6c1f5e-2b7d-4a3c-9e1f-6d2b8c4a7e10'', '''']"
    unfolding assms(1) by (rule ex_find_admin)
  show ?thesis
    using handleLogin_stored [OF f, of ex_platform ss2] assms(2)
    by (simp add: ex_token_eq ex_login_user)
qed

section \<open>Login\<close>

text \<open>
  C1, as the code has it. \<^verbatim>\<open>handleLogin\<close> scans the rows of the Users sheet below
  its first row, which it skips as the header row, from the top, and the first of them
  whose first two cells are equal to the username and the password (\<open>find\<close> gives the
  first one; the comparison is \<^verbatim>\<open>===\<close> on the stored text) decides. When the expiry
  of the new session, now plus 24 hours, is a valid date, the response has \<^verbatim>\<open>success\<close>
  true, a session token that is not empty, and a user object whose username, email and
  role are the cells of that row; its id is the row's User ID cell when that cell has
  text and a freshly generated UUID otherwise, and its chapterId is the row's Chapter
  ID cell when that cell has text and \<^verbatim>\<open>null\<close> otherwise. When the expiry is no valid
  date, \<^verbatim>\<open>toISOString\<close> throws in \<^verbatim>\<open>storeSession\<close> and the response has \<^verbatim>\<open>success\<close>
  false and the message \<^verbatim>\<open>Login error\<close> with the text of the error.
\<close>

theorem login_success:
  assumes "find (\<lambda>r. cell_at r 0 = Some u \<and> cell_at r 1 = Some p) (drop 1 (users_data E ss)) = Some r"
  shows "(if valid_time (now_store E + 86400000)
          then fst (handleLogin P E (JStr u) (JStr p) ss) =
                 JObj [(''success'', JBool True), (''message'', JStr ''Login successful''),
                       (''user'',
                        JObj [(''id'', (case cell_at r 4 of None \<Rightarrow> JStr (uuid_id E)
                                        | Some i \<Rightarrow> if i = [] then JStr (uuid_id E) else JStr i)),
                              (''username'', JStr u),
                              (''email'', js (cell_at r 2)),
                              (''role'', js (cell_at r 3)),
                              (''chapterId'', (case cell_at r 5 of None \<Rightarrow> JNull
                                               | Some c \<Rightarrow> if c = [] then JNull else JStr c))]),
                       (''sessionToken'', JStr (generateSessionToken E))]
          else fst (handleLogin P E (JStr u) (JStr p) ss) =
                 JObj [(''success'', JBool False),
                       (''message'', JStr (''Login error: '' @ rangeErrorText P))])
         \<and> generateSessionToken E \<noteq> []"
proof -
  from assms have "cell_at r 0 = Some u"
    by (auto dest: find_Some_iff [THEN iffD1])
  then show ?thesis
    by (simp add: handleLogin_match [OF assms] storeSession_sheet storeSession_throw
        login_user_fields generateSessionToken_nonempty)
qed

text \<open>
  The default administrator logs in on a spreadsheet that has no sheets yet: the
  response carries the stored id.
\<close>

theorem login_success_witness:
  "fst (handleLogin ex_platform ex_env (JStr ''admin'') (JStr ''admin123'') ex_fresh) =
     JObj [(''success'', JBool True), (''message'', JStr ''Login successful''),
           (''user'', ex_admin), (''sessionToken'', JStr ex_token)]"
  using login_success [OF ex_find_admin, of ex_platform]
  by (simp add: cell_at_def ex_token_eq ex_admin_def ex_valid)

text \<open>
  C1 as it is stated asks, for every user table and every match, for \<^verbatim>\<open>success\<close> true
  and a user object whose fields all match the stored row. Three logins with the
  stored username and password:
  \<^item> the row has no User ID and no Chapter ID: the id of the response is the generated
    UUID and its chapterId is \<^verbatim>\<open>null\<close>, while both stored cells are the empty text;
  \<^item> the row is the first row of a Users sheet without a header row: the scan skips it
    and the login fails;
  \<^item> the clock is at the last valid date, so that the expiry is no valid date: the
    answer is \<^verbatim>\<open>success\<close> false, \<^verbatim>\<open>Login error\<close>.
\<close>

theorem login_success_counterexample:
  "find (\<lambda>r. cell_at r 0 = Some ''maria'' \<and> cell_at r 1 = Some ''s3cret'')
     (drop 1 (users_data ex_env ex_maria_state)) =
     Some [''maria'', ''s3cret'', ''maria@dyesabel.org'', ''editor'', '''', '''']
   \<and> field (field (fst (handleLogin ex_platform ex_env (JStr ''maria'') (JStr ''s3cret'')
        ex_maria_state)) ''user'') ''id'' = JStr ''7c9e6679-7425-40de-944b-e07fc1f90ae7''
   \<and> field (field (fst (handleLogin ex_platform ex_env (JStr ''maria'') (JStr ''s3cret'')
        ex_maria_state)) ''user'') ''chapterId'' = JNull
   \<and> usersSheet ex_maria_row0 =
       Some [[''maria'', ''s3cret'', ''maria@dyesabel.org'', ''editor'', '''', '''']]
   \<and> fst (handleLogin ex_platform ex_env (JStr ''maria'') (JStr ''s3cret'') ex_maria_row0) =
       JObj [(''success'', JBool False), (''message'', JStr ''Invalid username or password'')]
   \<and> find (\<lambda>r. cell_at r 0 = Some ''admin'' \<and> cell_at r 1 = Some ''admin123'')
       (drop 1 (users_data ex_late_env ex_fresh)) =
       Some [''admin'', ''admin123'', ''admin@dyesabel.org'', ''admin'',
             ''0a6c1f5e-2b7d-4a3c-9e1f-6d2b8c4a7e10'', '''']
   \<and> fst (handleLogin ex_platform ex_late_env (JStr ''admin'') (JStr ''admin123'') ex_fresh) =
       JObj [(''success'', JBool False),
             (''message'', JStr ''Login error: RangeError: Invalid time value'')]"
proof -
  have f: "find (\<lambda>r. cell_at r 0 = Some ''maria'' \<and> cell_at r 1 = Some ''s3cret'')
     (drop 1 (users_data ex_env ex_maria_state)) =
     Some [''maria'', ''s3cret'', ''maria@dyesabel.org'', ''editor'', '''', '''']"
    by (simp add: ex_maria_data cell_at_def del: One_nat_def)
  have r: "fst (handleLogin ex_platform ex_env (JStr ''maria'') (JStr ''s3cret'') ex_maria_state) =
             JObj [(''success'', JBool True), (''message'', JStr ''Login successful''),
                   (''user'', login_user ex_env
                      [''maria'', ''s3cret'', ''maria@dyesabel.org'', ''editor'', '''', '''']),
                   (''sessionToken'', JStr (generateSessionToken ex_env))]"
    by (simp add: handleLogin_match [OF f] storeSession_sheet [OF ex_valid])
  have a: "field (field (fst (handleLogin ex_platform ex_env (JStr ''maria'') (JStr ''s3cret'')
        ex_maria_state)) ''user'') ''id'' = JStr ''7c9e6679-7425-40de-944b-e07fc1f90ae7''
      \<and> field (field (fst (handleLogin ex_platform ex_env (JStr ''maria'') (JStr ''s3cret'')
        ex_maria_state)) ''user'') ''chapterId'' = JNull"
    unfolding r by (simp add: login_user_fields cell_at_def field_def ex_env_def)
  have n: "find (\<lambda>r. cell_at r 0 = Some ''maria'' \<and> cell_at r 1 = Some ''s3cret'')
     (drop 1 (users_data ex_env ex_maria_row0)) = None"
    by (simp add: users_data_def users_sheet_def ex_maria_row0_def getValues_def)
  have b: "fst (handleLogin ex_platform ex_env (JStr ''maria'') (JStr ''s3cret'') ex_maria_row0) =
       JObj [(''success'', JBool False), (''message'', JStr ''Invalid username or password'')]"
    by (simp add: handleLogin_no_match [OF n])
  have l: "find (\<lambda>r. cell_at r 0 = Some ''admin'' \<and> cell_at r 1 = Some ''admin123'')
       (drop 1 (users_data ex_late_env ex_fresh)) =
       Some [''admin'', ''admin123'', ''admin@dyesabel.org'', ''admin'',
             ''0a6c1f5e-2b7d-4a3c-9e1f-6d2b8c4a7e10'', '''']"
    unfolding ex_late_users by (rule ex_find_admin)
  have c: "fst (handleLogin ex_platform ex_late_env (JStr ''admin'') (JStr ''admin123'') ex_fresh) =
       JObj [(''success'', JBool False),
             (''message'', JStr ''Login error: RangeError: Invalid time value'')]"
    by (simp add: handleLogin_throw [OF l ex_late_invalid] ex_platform_def)
  show ?thesis using f a b l c by (simp add: ex_maria_row0_def)
qed

section \<open>Validating a session\<close>

text \<open>
  C2, as the code has it. \<^verbatim>\<open>getSession\<close> looks at the rows of the Sessions sheet below
  its first row, which it skips as the header row. \<^verbatim>\<open>handleValidateSession\<close> fails with
  \<^verbatim>\<open>Invalid or expired session\<close> when there is no Sessions sheet, when none of these
  rows has the token, and when the expiry of the first of them with the token is before
  now (\<^verbatim>\<open>expiresAt < now\<close>; a cell that is no date is never before now). Otherwise the
  user data cell of that row is parsed: when it parses, the response has \<^verbatim>\<open>success\<close>
  true and the parsed snapshot as its user; when \<^verbatim>\<open>JSON.parse\<close> throws, the handler's
  \<^verbatim>\<open>catch\<close> answers \<^verbatim>\<open>success\<close> false with a \<^verbatim>\<open>Validation error\<close> message. The Users
  sheet has no part in the answer, and the spreadsheet is not changed.
\<close>

theorem validate_session_outcome:
  "fst (handleValidateSession P E (JStr t) ss) =
     (case sessionsSheet ss of
        None \<Rightarrow> JObj [(''success'', JBool False), (''message'', JStr ''Invalid or expired session'')]
      | Some sh \<Rightarrow>
          (case find (\<lambda>r. first_cell r = t) (drop 1 sh) of
             None \<Rightarrow> JObj [(''success'', JBool False), (''message'', JStr ''Invalid or expired session'')]
           | Some r \<Rightarrow>
               if row_expired P (now_check E) (width sh) r
               then JObj [(''success'', JBool False), (''message'', JStr ''Invalid or expired session'')]
               else (case parse_cell P (cell_at (pad (width sh) r) 1) of
                       Inr user \<Rightarrow> JObj [(''success'', JBool True), (''message'', JStr ''Session valid''),
                                          (''user'', user)]
                     | Inl err \<Rightarrow> JObj [(''success'', JBool False),
                                         (''message'', JStr (''Validation error: '' @ err))])))
   \<and> fst (handleValidateSession P E (JStr t) (ss\<lparr>usersSheet := us\<rparr>)) =
       fst (handleValidateSession P E (JStr t) ss)
   \<and> snd (handleValidateSession P E (JStr t) ss) = ss"
  by (simp only: handleValidateSession_find validate_users_independent
      handleValidateSession_state simp_thms)

text \<open>The token of a stored, unexpired session, and a token that no row has.\<close>

theorem validate_session_outcome_witness:
  "fst (handleValidateSession ex_platform ex_env (JStr ex_token) ex_logged_in) =
     JObj [(''success'', JBool True), (''message'', JStr ''Session valid''), (''user'', ex_admin)]
   \<and> fst (handleValidateSession ex_platform ex_env (JStr ''no-such-token'') ex_logged_in) =
     JObj [(''success'', JBool False), (''message'', JStr ''Invalid or expired session'')]"
  using validate_session_outcome [of ex_platform ex_env ex_token ex_logged_in None]
    validate_session_outcome [of ex_platform ex_env "''no-such-token''" ex_logged_in None]
  by (simp add: ex_logged_in_def ex_first_cells ex_new_not_expired ex_parse_new ex_token_def)

text \<open>
  C2 as it is stated promises \<^verbatim>\<open>success\<close> true whenever a session row has the token
  and is not expired. Two sheets on which such a row exists and the answer is
  \<^verbatim>\<open>success\<close> false:
  \<^item> the row has an expiry in the future and an empty user data cell;
  \<^item> the row is the first row of a Sessions sheet without a header row (the sheet that
    a login leaves on an empty Sessions sheet); its user data parses and its expiry is
    in the future.
\<close>

theorem validate_session_counterexample:
  "find (\<lambda>r. first_cell r = ex_token) (drop 1 [ex_header, ex_broken_row]) = Some ex_broken_row
   \<and> \<not> row_expired ex_platform (now_check ex_env) (width [ex_header, ex_broken_row]) ex_broken_row
   \<and> fst (handleValidateSession ex_platform ex_env (JStr ex_token) ex_broken) =
       JObj [(''success'', JBool False),
             (''message'', JStr ''Validation error: SyntaxError: Unexpected end of JSON input'')]
   \<and> sessionsSheet ex_session_row0 = Some [ex_new_row]
   \<and> first_cell ex_new_row = ex_token
   \<and> \<not> row_expired ex_platform (now_check ex_env) (width [ex_new_row]) ex_new_row
   \<and> parse_cell ex_platform (cell_at (pad (width [ex_new_row]) ex_new_row) 1) = Inr ex_admin
   \<and> fst (handleValidateSession ex_platform ex_env (JStr ex_token) ex_session_row0) =
       JObj [(''success'', JBool False), (''message'', JStr ''Invalid or expired session'')]"
  by (simp add: handleValidateSession_find ex_broken_def ex_session_row0_def ex_first_cells
      ex_broken_not_expired ex_new_not_expired ex_parse_broken ex_parse_new)

section \<open>Login, then validation\<close>

text \<open>
  C3, as the code has it. A login succeeds on a spreadsheet whose Sessions sheet does
  not exist yet or has at least its header row, and no row below the header row has
  the token that the login generates. The platform parses the user data that the
  login stored to a value with the id of the login response, and the stored expiry to
  the time it was written from; the clock readings of the sweep and of the validation
  are not later than 24 hours after the session was stored. Then validating the token
  of the login response on the spreadsheet that the login leaves succeeds, with the
  user id of the login response.
\<close>

theorem login_then_validate:
  assumes succ: "field (fst (handleLogin P E (JStr u) (JStr p) ss)) ''success'' = JBool True"
    and header: "sessionsSheet ss \<noteq> Some []"
    and fresh: "generateSessionToken E \<notin> first_cell ` set (drop 1 (sessions_base ss))"
    and json: "JSON_parse P (JSON_stringify P
                 (field (fst (handleLogin P E (JStr u) (JStr p) ss)) ''user'')) = Inr v"
    and same_id: "field v ''id'' =
                    field (field (fst (handleLogin P E (JStr u) (JStr p) ss)) ''user'') ''id''"
    and date: "Date_parse P (toISOString P (now_store E + 86400000)) = Some (now_store E + 86400000)"
    and sweep_time: "now_sweep E \<le> now_store E + 86400000"
    and check_time: "now_check E' \<le> now_store E + 86400000"
  shows "let login = handleLogin P E (JStr u) (JStr p) ss;
             valid = handleValidateSession P E' (field (fst login) ''sessionToken'') (snd login)
         in field (fst login) ''sessionToken'' = JStr (generateSessionToken E)
          \<and> field (fst valid) ''success'' = JBool True
          \<and> field (field (fst valid) ''user'') ''id'' = field (field (fst login) ''user'') ''id''"
proof -
  let ?ss1 = "ss\<lparr>usersSheet := Some (users_sheet E ss)\<rparr>"
  from handleLogin_success [OF succ] obtain r
    where valid: "valid_time (now_store E + 86400000)"
      and login: "find (\<lambda>r. cell_at r 0 = Some u \<and> cell_at r 1 = Some p)
                    (drop 1 (users_data E ss)) = Some r"
    by blast
  have resp: "fst (handleLogin P E (JStr u) (JStr p) ss) =
                JObj [(''success'', JBool True), (''message'', JStr ''Login successful''),
                      (''user'', login_user E r),
                      (''sessionToken'', JStr (generateSessionToken E))]"
    by (simp add: handleLogin_match [OF login] storeSession_sheet [OF valid])
  have j: "JSON_parse P (JSON_stringify P (login_user E r)) = Inr v"
    using json by (simp add: resp field_def)
  have h: "sessionsSheet ?ss1 \<noteq> Some []"
    using header by simp
  have f: "generateSessionToken E \<notin> first_cell ` set (drop 1 (sessions_base ?ss1))"
    using fresh by simp
  from validate_after_store [OF valid h f j date sweep_time check_time]
  obtain ss2 where
    stored: "storeSession P E (generateSessionToken E) (login_user E r) ?ss1 = Inr ss2"
    and ok: "fst (handleValidateSession P E' (JStr (generateSessionToken E)) ss2) =
               JObj [(''success'', JBool True), (''message'', JStr ''Session valid''), (''user'', v)]"
    by blast
  have all: "handleLogin P E (JStr u) (JStr p) ss =
               (JObj [(''success'', JBool True), (''message'', JStr ''Login successful''),
                      (''user'', login_user E r),
                      (''sessionToken'', JStr (generateSessionToken E))], ss2)"
    by (rule handleLogin_stored [OF login stored])
  show ?thesis
    using ok same_id by (simp add: all Let_def field_def)
qed

text \<open>The default administrator logs in on a spreadsheet with no sheets and validates.\<close>

theorem login_then_validate_witness:
  "field (fst (handleLogin ex_platform ex_env (JStr ''admin'') (JStr ''admin123'') ex_fresh))
     ''sessionToken'' = JStr ex_token
   \<and> field (fst (handleValidateSession ex_platform ex_env (JStr ex_token)
        (snd (handleLogin ex_platform ex_env (JStr ''admin'') (JStr ''admin123'') ex_fresh))))
        ''success'' = JBool True
   \<and> field (field (fst (handleValidateSession ex_platform ex_env (JStr ex_token)
        (snd (handleLogin ex_platform ex_env (JStr ''admin'') (JStr ''admin123'') ex_fresh))))
        ''user'') ''id'' = JStr ''0a6c1f5e-2b7d-4a3c-9e1f-6d2b8c4a7e10''"
proof -
  have resp: "fst (handleLogin ex_platform ex_env (JStr ''admin'') (JStr ''admin123'') ex_fresh) =
     JObj [(''success'', JBool True), (''message'', JStr ''Login successful''),
           (''user'', ex_admin), (''sessionToken'', JStr ex_token)]"
    by (simp add: handleLogin_match [OF ex_find_admin] storeSession_sheet [OF ex_valid]
        ex_token_eq ex_login_user)
  have succ: "field (fst (handleLogin ex_platform ex_env (JStr ''admin'') (JStr ''admin123'')
                ex_fresh)) ''success'' = JBool True"
    by (simp add: resp field_def)
  have header: "sessionsSheet ex_fresh \<noteq> Some []" by (simp add: ex_fresh_def)
  have fresh: "generateSessionToken ex_env \<notin> first_cell ` set (drop 1 (sessions_base ex_fresh))"
    by (simp add: sessions_base_def ex_fresh_def)
  have json: "JSON_parse ex_platform (JSON_stringify ex_platform
                (field (fst (handleLogin ex_platform ex_env (JStr ''admin'') (JStr ''admin123'')
                   ex_fresh)) ''user'')) = Inr ex_admin"
    unfolding resp by (simp add: field_def ex_platform_def)
  have same_id: "field ex_admin ''id'' =
                   field (field (fst (handleLogin ex_platform ex_env (JStr ''admin'')
                     (JStr ''admin123'') ex_fresh)) ''user'') ''id''"
    by (simp add: resp field_def)
  have t1: "now_sweep ex_env \<le> now_store ex_env + 86400000" by (simp add: ex_env_def)
  have t2: "now_check ex_env \<le> now_store ex_env + 86400000" by (simp add: ex_env_def)
  from login_then_validate [OF succ header fresh json same_id ex_date t1 t2]
  show ?thesis
    by (simp add: Let_def resp field_def ex_token_eq ex_admin_def)
qed

text \<open>
  C3 as it is stated holds for every state in which the login succeeds. Two states in
  which the administrator logs in, the login succeeds and returns the token, and the
  validation that follows at once does not answer with the administrator:
  \<^item> the Sessions sheet exists and is empty: \<^verbatim>\<open>appendRow\<close> puts the session into the
    first row, which \<^verbatim>\<open>getSession\<close> skips as the header row, and the validation fails;
  \<^item> a row of another user already has the token: \<^verbatim>\<open>getSession\<close> finds that row
    first, and the validation succeeds with the id of the other user.
\<close>

theorem login_then_validate_counterexample:
  "fst (handleLogin ex_platform ex_env (JStr ''admin'') (JStr ''admin123'') ex_empty) =
     JObj [(''success'', JBool True), (''message'', JStr ''Login successful''),
           (''user'', ex_admin), (''sessionToken'', JStr ex_token)]
   \<and> sessionsSheet (snd (handleLogin ex_platform ex_env (JStr ''admin'') (JStr ''admin123'')
        ex_empty)) = Some [ex_new_row]
   \<and> fst (handleValidateSession ex_platform ex_env (JStr ex_token)
        (snd (handleLogin ex_platform ex_env (JStr ''admin'') (JStr ''admin123'') ex_empty))) =
       JObj [(''success'', JBool False), (''message'', JStr ''Invalid or expired session'')]
   \<and> fst (handleLogin ex_platform ex_env (JStr ''admin'') (JStr ''admin123'') ex_clash) =
     JObj [(''success'', JBool True), (''message'', JStr ''Login successful''),
           (''user'', ex_admin), (''sessionToken'', JStr ex_token)]
   \<and> sessionsSheet (snd (handleLogin ex_platform ex_env (JStr ''admin'') (JStr ''admin123'')
        ex_clash)) = Some [ex_header, ex_clash_row, ex_new_row]
   \<and> fst (handleValidateSession ex_platform ex_env (JStr ex_token)
        (snd (handleLogin ex_platform ex_env (JStr ''admin'') (JStr ''admin123'') ex_clash))) =
       JObj [(''success'', JBool True), (''message'', JStr ''Session valid''), (''user'', ex_maria)]
   \<and> field ex_admin ''id'' = JStr ''0a6c1f5e-2b7d-4a3c-9e1f-6d2b8c4a7e10''
   \<and> field ex_maria ''id'' = JStr ''7c9e6679-7425-40de-944b-e07fc1f90ae7''"
proof -
  have sw: "now_sweep ex_env = 1700000000002" by (simp add: ex_env_def)
  have ck: "now_check ex_env \<le> 1700049600000" by (simp add: ex_env_def)
  have b: "sessions_base ex_empty = []"
    by (simp add: sessions_base_def ex_empty_def)
  have s: "storeSession ex_platform ex_env ex_token ex_admin
             (ex_empty\<lparr>usersSheet := Some (users_sheet ex_env ex_empty)\<rparr>) =
           Inr (ex_empty\<lparr>usersSheet := Some (users_sheet ex_env ex_empty),
                          sessionsSheet := Some [ex_new_row]\<rparr>)"
    by (simp add: storeSession_sheet [OF ex_valid] b Let_def ex_session_row)
  have c: "sessions_base ex_clash = [ex_header, ex_clash_row]"
    by (simp add: sessions_base_def ex_clash_def)
  have s': "storeSession ex_platform ex_env ex_token ex_admin
             (ex_clash\<lparr>usersSheet := Some (users_sheet ex_env ex_clash)\<rparr>) =
           Inr (ex_clash\<lparr>usersSheet := Some (users_sheet ex_env ex_clash),
                          sessionsSheet := Some [ex_header, ex_clash_row, ex_new_row]\<rparr>)"
    using ex_clash_not_expired [of 1700000000002] ex_new_live [of 1700000000002]
    by (simp add: storeSession_sheet [OF ex_valid] c Let_def ex_session_row sw)
  have fc: "first_cell ex_clash_row = ex_token"
    by (simp add: first_cell_def ex_clash_row_def)
  show ?thesis
    using ex_clash_not_expired [OF ck]
    by (simp add: ex_admin_stored [OF ex_empty_users s] ex_admin_stored [OF ex_clash_users s']
        handleValidateSession_find ex_first_cells fc ex_parse_clash)
       (simp add: field_def ex_admin_def ex_maria_def)
qed

section \<open>Logout\<close>

text \<open>
  C4, as the code has it. \<^verbatim>\<open>handleLogout\<close> answers \<^verbatim>\<open>success\<close> true whatever the
  token and the Sessions sheet are, also when there is no sheet or no row with the
  token. Of the rows below the first row of the sheet, which the loop skips as the
  header row, it deletes the first one whose token cell is the token, if there is one,
  and nothing else. When at most one of these rows had the token, validating the token
  after the logout fails.
\<close>

theorem logout_removes_first:
  "fst (handleLogout tok ss) =
     JObj [(''success'', JBool True), (''message'', JStr ''Logged out successfully'')]
   \<and> sessionsSheet (snd (handleLogout (JStr t) ss)) =
       map_option (\<lambda>sh. take 1 sh @ delete_first (\<lambda>r. first_cell r = t) (drop 1 sh))
         (sessionsSheet ss)
   \<and> ((case sessionsSheet ss of
          None \<Rightarrow> True
        | Some sh \<Rightarrow> length (filter (\<lambda>r. first_cell r = t) (drop 1 sh)) \<le> 1) \<longrightarrow>
       fst (handleValidateSession P E (JStr t) (snd (handleLogout (JStr t) ss))) =
         JObj [(''success'', JBool False), (''message'', JStr ''Invalid or expired session'')])"
proof (cases "sessionsSheet ss")
  case None
  then show ?thesis
    by (simp add: handleLogout_response handleLogout_sheet handleValidateSession_find)
next
  case (Some sh)
  have gone: "find (\<lambda>r. first_cell r = t)
                (drop 1 (take 1 sh @ delete_first (\<lambda>r. first_cell r = t) (drop 1 sh))) = None"
    if "length (filter (\<lambda>r. first_cell r = t) (drop 1 sh)) \<le> 1"
  proof (cases sh)
    case Nil
    then show ?thesis by simp
  next
    case (Cons h rows)
    with that show ?thesis by (simp add: find_delete_first)
  qed
  show ?thesis
    using gone
    by (simp add: handleLogout_response handleLogout_sheet handleValidateSession_find Some
        del: One_nat_def)
qed

text \<open>
  Logging out the one stored session leaves the header row, and the token is no
  longer valid; logging out a token that no row has succeeds as well.
\<close>

theorem logout_removes_first_witness:
  "sessionsSheet (snd (handleLogout (JStr ex_token) ex_logged_in)) = Some [ex_header]
   \<and> fst (handleValidateSession ex_platform ex_env (JStr ex_token)
            (snd (handleLogout (JStr ex_token) ex_logged_in))) =
       JObj [(''success'', JBool False), (''message'', JStr ''Invalid or expired session'')]
   \<and> fst (handleLogout (JStr ''no-such-token'') ex_logged_in) =
       JObj [(''success'', JBool True), (''message'', JStr ''Logged out successfully'')]"
  using logout_removes_first [of "JStr ''no-such-token''" ex_logged_in ex_token ex_platform ex_env]
  by (simp add: ex_logged_in_def ex_first_cells)

text \<open>
  C4 as it is stated promises, for every Sessions sheet, that the first row with the
  token is deleted and that validation fails afterwards.
  \<^item> With two rows for one token the logout deletes the first, the loop ends
    (\<^verbatim>\<open>break\<close>), and the second row still validates.
  \<^item> On a Sessions sheet without a header row whose first row has the token, the
    logout deletes nothing.
\<close>

theorem logout_counterexample:
  "fst (handleLogout (JStr ex_token) ex_twice) =
     JObj [(''success'', JBool True), (''message'', JStr ''Logged out successfully'')]
   \<and> sessionsSheet (snd (handleLogout (JStr ex_token) ex_twice)) = Some [ex_header, ex_new_row]
   \<and> fst (handleValidateSession ex_platform ex_env (JStr ex_token)
            (snd (handleLogout (JStr ex_token) ex_twice))) =
       JObj [(''success'', JBool True), (''message'', JStr ''Session valid''), (''user'', ex_admin)]
   \<and> sessionsSheet ex_session_row0 = Some [ex_new_row]
   \<and> first_cell ex_new_row = ex_token
   \<and> sessionsSheet (snd (handleLogout (JStr ex_token) ex_session_row0)) = Some [ex_new_row]"
  by (simp add: handleLogout_sheet handleValidateSession_find ex_twice_def ex_session_row0_def
      ex_first_cells ex_new_not_expired ex_parse_new)

section \<open>Storing a session sweeps the expired ones\<close>

text \<open>
  C5, as the code has it. \<^verbatim>\<open>storeSession\<close> appends the new row and sweeps; the sweep
  never visits the first row of the sheet, which it takes as the header row. When the
  expiry of the new session is a valid date (so that the session is stored), the
  platform reads this expiry back from its ISO text as the same time, and the sweep
  reads the clock no later than it, the sheet afterwards is: the first row, the rows
  below it whose expiry was not before the time of the sweep, unchanged and in their
  order, and the new row. Every row below the first whose expiry was before that time
  is gone.
\<close>

theorem store_sweeps_expired:
  assumes valid: "valid_time (now_store E + 86400000)"
    and date: "Date_parse P (toISOString P (now_store E + 86400000)) = Some (now_store E + 86400000)"
    and time: "now_sweep E \<le> now_store E + 86400000"
  shows "storeSession P E tok user ss =
           Inr (ss\<lparr>sessionsSheet :=
             Some (take 1 (sessions_base ss) @
                   filter (\<lambda>r. \<not> row_expired P (now_sweep E)
                                  (width (sessions_base ss @ [session_row P E tok user])) r)
                     (drop 1 (sessions_base ss)) @
                   [session_row P E tok user])\<rparr>)"
proof (rule storeSession_kept [OF valid])
  show "\<not> row_expired P (now_sweep E) (width (sessions_base ss @ [session_row P E tok user]))
             (session_row P E tok user)"
    using time by (simp add: row_expired_session_row [OF date])
qed

text \<open>The expired session is swept, the live one and the new one stay.\<close>

theorem store_sweeps_expired_witness:
  "storeSession ex_platform ex_env ex_token ex_admin ex_sessions =
     Inr (ex_sessions\<lparr>sessionsSheet := Some [ex_header, ex_live_row, ex_new_row]\<rparr>)"
proof -
  have t: "now_sweep ex_env \<le> now_store ex_env + 86400000" by (simp add: ex_env_def)
  have s: "now_sweep ex_env = 1700000000002" by (simp add: ex_env_def)
  from store_sweeps_expired [OF ex_valid ex_date t, of ex_token ex_admin ex_sessions]
  show ?thesis
    using ex_old_expired ex_live_not_expired
    by (simp add: s ex_session_row sessions_base_def ex_sessions_def)
qed

text \<open>
  C5 as it is stated has every row whose expiry has passed deleted, on every Sessions
  sheet. On a sheet without a header row whose first row is a session that expired two
  weeks ago, storing a new session leaves that row where it is.
\<close>

theorem store_sweeps_expired_counterexample:
  "sessionsSheet ex_old_row0 = Some [ex_old_row]
   \<and> row_expired ex_platform (now_sweep ex_env) (width [ex_old_row, ex_new_row]) ex_old_row
   \<and> storeSession ex_platform ex_env ex_token ex_admin ex_old_row0 =
       Inr (ex_old_row0\<lparr>sessionsSheet := Some [ex_old_row, ex_new_row]\<rparr>)"
proof -
  have s: "now_sweep ex_env = 1700000000002" by (simp add: ex_env_def)
  show ?thesis
    using ex_old_expired ex_new_live [of 1700000000002]
    by (simp add: storeSession_sheet [OF ex_valid] s ex_session_row sessions_base_def
        ex_old_row0_def Let_def)
qed

section \<open>Failed logins\<close>

text \<open>
  C6. One login fails because no row has the username, another because a row has the
  username but none has it with the password: the two responses are the same object,
  \<^verbatim>\<open>success\<close> false with the message \<^verbatim>\<open>Invalid username or password\<close>.
\<close>

theorem failed_logins_same_response:
  assumes unknown: "\<forall>r \<in> set (drop 1 (users_data E1 ss1)). cell_at r 0 \<noteq> Some u1"
    and known: "\<exists>r \<in> set (drop 1 (users_data E2 ss2)). cell_at r 0 = Some u2"
    and wrong: "\<forall>r \<in> set (drop 1 (users_data E2 ss2)).
                  cell_at r 0 = Some u2 \<longrightarrow> cell_at r 1 \<noteq> Some p2"
  shows "fst (handleLogin P E1 (JStr u1) (JStr p1) ss1) =
           fst (handleLogin P E2 (JStr u2) (JStr p2) ss2)
         \<and> fst (handleLogin P E1 (JStr u1) (JStr p1) ss1) =
             JObj [(''success'', JBool False), (''message'', JStr ''Invalid username or password'')]"
proof -
  have n1: "find (\<lambda>r. cell_at r 0 = Some u1 \<and> cell_at r 1 = Some p1)
              (drop 1 (users_data E1 ss1)) = None"
    using unknown by (auto simp: find_None_iff)
  have n2: "find (\<lambda>r. cell_at r 0 = Some u2 \<and> cell_at r 1 = Some p2)
              (drop 1 (users_data E2 ss2)) = None"
    using wrong by (auto simp: find_None_iff)
  show ?thesis
    using handleLogin_no_match [OF n1, of P] handleLogin_no_match [OF n2, of P] by simp
qed

text \<open>An unknown user and the administrator with a wrong password, on the default users.\<close>

theorem failed_logins_same_response_witness:
  "fst (handleLogin ex_platform ex_env (JStr ''nobody'') (JStr ''admin123'') ex_fresh) =
   fst (handleLogin ex_platform ex_env (JStr ''admin'') (JStr ''wrong'') ex_fresh)"
proof -
  have a: "\<forall>r \<in> set (drop 1 (users_data ex_env ex_fresh)). cell_at r 0 \<noteq> Some ''nobody''"
    by (simp add: ex_users_data cell_at_def del: One_nat_def)
  have b: "\<exists>r \<in> set (drop 1 (users_data ex_env ex_fresh)). cell_at r 0 = Some ''admin''"
    by (simp add: ex_users_data cell_at_def del: One_nat_def)
  have c: "\<forall>r \<in> set (drop 1 (users_data ex_env ex_fresh)).
             cell_at r 0 = Some ''admin'' \<longrightarrow> cell_at r 1 \<noteq> Some ''wrong''"
    by (simp add: ex_users_data cell_at_def del: One_nat_def)
  from failed_logins_same_response [OF a b c, of ex_platform]
  show ?thesis by simp
qed

section \<open>The validity window of a session\<close>

text \<open>
  C7. A successful login appends exactly one row to the Sessions sheet (the rows above
  it are rows that were there, in their order): the token, the user data, the time
  \<open>now\<close> at which \<^verbatim>\<open>storeSession\<close> read the clock and \<open>now\<close> plus 24 hours, both as ISO
  texts. A login with a matching row is successful exactly when that expiry is a
  valid date. (That the sweep, which follows at once, keeps the row needs that the
  platform reads the expiry it wrote back as the same time and that the sweep reads the
  clock within 24 hours of the store.) No operation writes into a stored row afterwards:
  \<^verbatim>\<open>handleValidateSession\<close> leaves the spreadsheet as it is, and after any request the
  rows of the Sessions sheet are a subsequence of the rows before it and one new
  session row.
\<close>

theorem session_ttl_fixed:
  assumes login: "find (\<lambda>r. cell_at r 0 = Some u \<and> cell_at r 1 = Some p)
                    (drop 1 (users_data E ss)) = Some r"
    and date: "Date_parse P (toISOString P (now_store E + 86400000)) = Some (now_store E + 86400000)"
    and time: "now_sweep E \<le> now_store E + 86400000"
  shows "field (fst (handleLogin P E (JStr u) (JStr p) ss)) ''success'' =
           JBool (valid_time (now_store E + 86400000))
         \<and> (field (fst (handleLogin P E (JStr u) (JStr p) ss)) ''success'' = JBool True \<longrightarrow>
          (\<exists>kept. subseq kept (sessions_base ss)
            \<and> sessionsSheet (snd (handleLogin P E (JStr u) (JStr p) ss)) =
                Some (kept @ [[generateSessionToken E, JSON_stringify P (login_user E r),
                               toISOString P (now_store E),
                               toISOString P (now_store E + 24 * 60 * 60 * 1000)]])))
         \<and> snd (handleValidateSession P E' tok ss') = ss'
         \<and> (case sessionsSheet (snd (doPost P E' c ss')) of
               None \<Rightarrow> sessionsSheet ss' = None
             | Some sh' \<Rightarrow>
                 \<exists>user. subseq sh'
                   (sessions_base ss' @ [session_row P E' (generateSessionToken E') user]))"
proof -
  let ?ss1 = "ss\<lparr>usersSheet := Some (users_sheet E ss)\<rparr>"
  let ?new = "session_row P E (generateSessionToken E) (login_user E r)"
  let ?kept = "take 1 (sessions_base ss) @
                 filter (\<lambda>r. \<not> row_expired P (now_sweep E) (width (sessions_base ss @ [?new])) r)
                   (drop 1 (sessions_base ss))"
  have stored: "\<exists>kept. subseq kept (sessions_base ss)
            \<and> sessionsSheet (snd (handleLogin P E (JStr u) (JStr p) ss)) =
                Some (kept @ [[generateSessionToken E, JSON_stringify P (login_user E r),
                               toISOString P (now_store E),
                               toISOString P (now_store E + 24 * 60 * 60 * 1000)]])"
    if succ: "field (fst (handleLogin P E (JStr u) (JStr p) ss)) ''success'' = JBool True"
  proof -
    from handleLogin_success [OF succ] have valid: "valid_time (now_store E + 86400000)"
      by blast
    have live: "\<not> row_expired P (now_sweep E) (width (sessions_base ?ss1 @ [?new])) ?new"
      using time by (simp add: row_expired_session_row [OF date])
    have "storeSession P E (generateSessionToken E) (login_user E r) ?ss1 =
            Inr (?ss1\<lparr>sessionsSheet := Some (?kept @ [?new])\<rparr>)"
      using storeSession_kept [OF valid live] by simp
    then have "sessionsSheet (snd (handleLogin P E (JStr u) (JStr p) ss)) =
                 Some (?kept @ [?new])"
      by (simp add: handleLogin_match [OF login])
    moreover have "subseq ?kept (sessions_base ss)"
      by (rule subseq_sweep_result)
    ultimately show ?thesis
      by (simp add: session_row_def del: One_nat_def)
  qed
  have post: "case sessionsSheet (snd (doPost P E' c ss')) of
               None \<Rightarrow> sessionsSheet ss' = None
             | Some sh' \<Rightarrow>
                 \<exists>user. subseq sh'
                   (sessions_base ss' @ [session_row P E' (generateSessionToken E') user])"
    using handleLogin_rows [where P = P and E = E' and ss = ss']
      handleLogout_rows [where ss = ss' and P = P and E = E' and t = "generateSessionToken E'"]
      unchanged_rows [where ss = ss' and P = P and E = E' and tok = "generateSessionToken E'"]
    by (simp add: doPost_cases handleValidateSession_state split: sum.splits)
  from stored have first:
    "field (fst (handleLogin P E (JStr u) (JStr p) ss)) ''success'' = JBool True \<longrightarrow>
     (\<exists>kept. subseq kept (sessions_base ss)
        \<and> sessionsSheet (snd (handleLogin P E (JStr u) (JStr p) ss)) =
            Some (kept @ [[generateSessionToken E, JSON_stringify P (login_user E r),
                           toISOString P (now_store E),
                           toISOString P (now_store E + 24 * 60 * 60 * 1000)]]))"
    by (rule impI)
  have succeeds: "field (fst (handleLogin P E (JStr u) (JStr p) ss)) ''success'' =
                    JBool (valid_time (now_store E + 86400000))"
    by (cases "valid_time (now_store E + 86400000)")
       (simp_all add: handleLogin_match [OF login] storeSession_sheet storeSession_throw
          field_def)
  show ?thesis
    using succeeds first post by (simp only: handleValidateSession_state simp_thms)
qed

text \<open>
  The administrator logs in on a sheet with an expired and a live session, and a
  stored session is validated.
\<close>

theorem session_ttl_fixed_witness:
  "field (fst (handleLogin ex_platform ex_env (JStr ''admin'') (JStr ''admin123'') ex_sessions))
     ''success'' = JBool True
   \<and> (\<exists>kept. subseq kept [ex_header, ex_old_row, ex_live_row]
      \<and> sessionsSheet (snd (handleLogin ex_platform ex_env (JStr ''admin'') (JStr ''admin123'')
           ex_sessions)) = Some (kept @ [ex_new_row]))
   \<and> snd (handleValidateSession ex_platform ex_env (JStr ex_token) ex_logged_in) = ex_logged_in"
proof -
  have f: "find (\<lambda>r. cell_at r 0 = Some ''admin'' \<and> cell_at r 1 = Some ''admin123'')
             (drop 1 (users_data ex_env ex_sessions)) =
           Some [''admin'', ''admin123'', ''admin@dyesabel.org'', ''admin'',
                 ''0a6c1f5e-2b7d-4a3c-9e1f-6d2b8c4a7e10'', '''']"
    unfolding ex_sessions_users by (rule ex_find_admin)
  have succ: "field (fst (handleLogin ex_platform ex_env (JStr ''admin'') (JStr ''admin123'')
                ex_sessions)) ''success'' = JBool True"
    by (simp add: handleLogin_match [OF f] storeSession_sheet [OF ex_valid] field_def)
  have t: "now_sweep ex_env \<le> now_store ex_env + 86400000" by (simp add: ex_env_def)
  have b: "sessions_base ex_sessions = [ex_header, ex_old_row, ex_live_row]"
    by (simp add: sessions_base_def ex_sessions_def)
  have n: "[ex_token, JSON_stringify ex_platform ex_admin,
            toISOString ex_platform (now_store ex_env),
            toISOString ex_platform (now_store ex_env + 24 * 60 * 60 * 1000)] = ex_new_row"
    by (simp add: ex_new_row_def ex_platform_def ex_env_def)
  from session_ttl_fixed [OF f ex_date t, where E' = ex_env and tok = "JStr ex_token"
      and ss' = ex_logged_in and c = "[]"]
  show ?thesis
    unfolding ex_login_user b ex_token_eq n using succ by simp
qed

section \<open>The main handler, dispatching\<close>

text \<open>
  C8. The response of \<^verbatim>\<open>doPost\<close> always has a boolean \<^verbatim>\<open>success\<close> and a text
  \<^verbatim>\<open>message\<close>. When the body parses and its \<^verbatim>\<open>action\<close> is \<^verbatim>\<open>login\<close>, \<^verbatim>\<open>logout\<close> or
  \<^verbatim>\<open>validateSession\<close>, the request is handled by that one handler, with the fields
  of the body as its arguments. In every other case (the body does not parse, it is
  \<^verbatim>\<open>null\<close>, it has no action or another one) the response has \<^verbatim>\<open>success\<close> false
  and the spreadsheet is not changed.
\<close>

theorem doPost_dispatch:
  "is_envelope (fst (doPost P E c ss))
   \<and> (case JSON_parse P c of
         Inl err \<Rightarrow>
           field (fst (doPost P E c ss)) ''success'' = JBool False \<and> snd (doPost P E c ss) = ss
       | Inr data \<Rightarrow>
           if field data ''action'' = JStr ''login''
           then doPost P E c ss =
                  handleLogin P E (field data ''username'') (field data ''password'') ss
           else if field data ''action'' = JStr ''logout''
           then doPost P E c ss = handleLogout (field data ''sessionToken'') ss
           else if field data ''action'' = JStr ''validateSession''
           then doPost P E c ss = handleValidateSession P E (field data ''sessionToken'') ss
           else field (fst (doPost P E c ss)) ''success'' = JBool False
                \<and> snd (doPost P E c ss) = ss)"
proof -
  have env: "is_envelope (fst (doPost P E c ss))"
    by (simp add: doPost_cases is_envelope_handleLogin is_envelope_handleLogout
        is_envelope_handleValidateSession split: sum.splits)
       (simp add: is_envelope_def field_def)
  have disp: "case JSON_parse P c of
         Inl err \<Rightarrow>
           field (fst (doPost P E c ss)) ''success'' = JBool False \<and> snd (doPost P E c ss) = ss
       | Inr data \<Rightarrow>
           if field data ''action'' = JStr ''login''
           then doPost P E c ss =
                  handleLogin P E (field data ''username'') (field data ''password'') ss
           else if field data ''action'' = JStr ''logout''
           then doPost P E c ss = handleLogout (field data ''sessionToken'') ss
           else if field data ''action'' = JStr ''validateSession''
           then doPost P E c ss = handleValidateSession P E (field data ''sessionToken'') ss
           else field (fst (doPost P E c ss)) ''success'' = JBool False
                \<and> snd (doPost P E c ss) = ss"
    by (auto simp: doPost_cases field_def split: sum.splits)
  show ?thesis using env disp by (rule conjI)
qed

text \<open>A login request, a request with an unknown action and an empty body.\<close>

theorem doPost_dispatch_witness:
  "doPost ex_platform ex_env ex_login_body ex_fresh =
     handleLogin ex_platform ex_env (JStr ''admin'') (JStr ''admin123'') ex_fresh
   \<and> field (fst (doPost ex_platform ex_env ex_ping_body ex_fresh)) ''success'' = JBool False
   \<and> field (fst (doPost ex_platform ex_env [] ex_fresh)) ''success'' = JBool False"
  using doPost_dispatch [of ex_platform ex_env ex_login_body ex_fresh]
    doPost_dispatch [of ex_platform ex_env ex_ping_body ex_fresh]
    doPost_dispatch [of ex_platform ex_env "[]" ex_fresh]
  by (simp add: ex_parse_bodies field_def)

section \<open>A failed login and the sessions\<close>

text \<open>
  C9. When no data row of the Users sheet has the given username and password, the
  login fails and the Sessions sheet is what it was: no row is appended, no row is
  swept, and a sheet that did not exist is not created.
\<close>

theorem failed_login_keeps_sessions:
  assumes "find (\<lambda>r. cell_at r 0 = Some u \<and> cell_at r 1 = Some p) (drop 1 (users_data E ss)) = None"
  shows "sessionsSheet (snd (handleLogin P E (JStr u) (JStr p) ss)) = sessionsSheet ss
         \<and> field (fst (handleLogin P E (JStr u) (JStr p) ss)) ''success'' = JBool False"
  using handleLogin_no_match [OF assms, of P] by (simp add: field_def)

text \<open>
  A wrong password on a spreadsheet whose Sessions sheet holds an expired session: the
  expired row is still there afterwards.
\<close>

theorem failed_login_keeps_sessions_witness:
  "sessionsSheet (snd (handleLogin ex_platform ex_env (JStr ''admin'') (JStr ''wrong'') ex_stale)) =
     Some [ex_header, ex_old_row]"
proof -
  have "find (\<lambda>r. cell_at r 0 = Some ''admin'' \<and> cell_at r 1 = Some ''wrong'')
          (drop 1 (users_data ex_env ex_stale)) = None"
    by (simp add: ex_stale_users ex_users_data cell_at_def del: One_nat_def)
  from failed_login_keeps_sessions [OF this, of ex_platform]
  show ?thesis by (simp add: ex_stale_def)
qed

section \<open>The cleanup sweep\<close>

text \<open>
  C10. On a Sessions sheet, \<^verbatim>\<open>cleanupExpiredSessions\<close> leaves the first row (the
  header row) where it is and, of the rows below, exactly those whose expiry is not
  before now, in the order they had: the result is a subsequence of the sheet. The loop
  runs from the last row down to index 1 and deletes nothing else.
\<close>

theorem sweep_keeps_order_and_header:
  assumes "sessionsSheet ss = Some sh"
  shows "sessionsSheet (cleanupExpiredSessions P E ss) =
           Some (take 1 sh @ filter (\<lambda>r. \<not> row_expired P (now_sweep E) (width sh) r) (drop 1 sh))
         \<and> subseq (take 1 sh @ filter (\<lambda>r. \<not> row_expired P (now_sweep E) (width sh) r) (drop 1 sh)) sh
         \<and> usersSheet (cleanupExpiredSessions P E ss) = usersSheet ss"
proof -
  have "subseq (take 1 sh @ filter (\<lambda>r. \<not> row_expired P (now_sweep E) (width sh) r) (drop 1 sh))
          (take 1 sh @ drop 1 sh)"
    by (simp only: subseq_append' subseq_filter_left)
  then show ?thesis by (simp add: cleanup_sheet [OF assms] del: One_nat_def)
qed

text \<open>A header row, an expired session and a live one: the live one stays below the header.\<close>

theorem sweep_keeps_order_and_header_witness:
  "sessionsSheet (cleanupExpiredSessions ex_platform ex_env ex_sessions) = Some [ex_header, ex_live_row]"
proof -
  have "sessionsSheet ex_sessions = Some [ex_header, ex_old_row, ex_live_row]"
    by (simp add: ex_sessions_def)
  from sweep_keeps_order_and_header [OF this, of ex_platform ex_env]
  show ?thesis
    using ex_old_expired ex_live_not_expired by (simp add: ex_env_def)
qed

end
